theory Spec2Isabelle
  imports Main "HOL-Library.Sublist"
begin

section \<open>Strings as the parser uses them\<close>

text \<open>
  The report is read as text; a document is modelled as a \<^typ>\<open>string\<close>, each character a
  code point below 256. The helpers below are the Python string methods the parser calls.
\<close>

definition nl :: char where
  "nl = CHR 0x0A"

definition is_space :: "char \<Rightarrow> bool" where
  \<comment> \<open>the characters \<open>str.strip\<close>, \<open>str.split()\<close> and the pattern \<open>\s\<close> treat as whitespace\<close>
  "is_space c \<longleftrightarrow> c \<in> set [CHR 0x20, CHR 0x0A, CHR 0x09, CHR 0x0D, CHR 0x0B, CHR 0x0C,
                            CHR 0x1C, CHR 0x1D, CHR 0x1E, CHR 0x1F, CHR 0x85, CHR 0xA0]"

definition is_digit :: "char \<Rightarrow> bool" where
  "is_digit c \<longleftrightarrow> c \<in> set ''0123456789''"

definition lower_char :: "char \<Rightarrow> char" where
  \<comment> \<open>lower case of the letters A to Z: the patterns and the words compared without
      regard to case are made of these letters only\<close>
  "lower_char c = (case map_of (zip ''ABCDEFGHIJKLMNOPQRSTUVWXYZ'' ''abcdefghijklmnopqrstuvwxyz'') c of
                     Some l \<Rightarrow> l | None \<Rightarrow> c)"

definition lower_str :: "string \<Rightarrow> string" where
  "lower_str s = map lower_char s"

definition lstrip :: "string \<Rightarrow> string" where
  "lstrip s = dropWhile is_space s"

definition rstrip :: "string \<Rightarrow> string" where
  "rstrip s = rev (dropWhile is_space (rev s))"

definition strip :: "string \<Rightarrow> string" where
  "strip s = rstrip (lstrip s)"

definition rstrip_char :: "char \<Rightarrow> string \<Rightarrow> string" where
  \<comment> \<open>\<open>s.rstrip(c)\<close> for a one-character argument\<close>
  "rstrip_char c s = rev (dropWhile (\<lambda>x. x = c) (rev s))"

fun startswith_by :: "(char \<Rightarrow> char) \<Rightarrow> string \<Rightarrow> string \<Rightarrow> bool" where
  "startswith_by f [] s = True"
| "startswith_by f (x # w) [] = False"
| "startswith_by f (x # w) (c # s) = (f c = f x \<and> startswith_by f w s)"

definition startswith :: "string \<Rightarrow> string \<Rightarrow> bool" where
  \<comment> \<open>\<open>s.startswith(w)\<close>\<close>
  "startswith s w = startswith_by id w s"

fun contains :: "string \<Rightarrow> string \<Rightarrow> bool" where
  \<comment> \<open>\<open>w in s\<close>\<close>
  "contains w [] = (w = [])"
| "contains w (c # s) = (startswith (c # s) w \<or> contains w s)"

fun split_char :: "char \<Rightarrow> string \<Rightarrow> string list" where
  \<comment> \<open>\<open>s.split(c)\<close> for a one-character separator: empty pieces are kept\<close>
  "split_char c [] = [[]]"
| "split_char c (x # xs) =
     (if x = c then [] # split_char c xs
      else (case split_char c xs of y # ys \<Rightarrow> (x # y) # ys | [] \<Rightarrow> [[x]]))"

fun split_ws :: "string \<Rightarrow> string list" where
  \<comment> \<open>\<open>s.split()\<close>: the maximal runs of non-whitespace characters\<close>
  "split_ws [] = []"
| "split_ws (c # s) =
     (if is_space c then split_ws s
      else (case s of
              [] \<Rightarrow> [[c]]
            | d # _ \<Rightarrow> if is_space d then [c] # split_ws s
                       else (case split_ws s of y # ys \<Rightarrow> (c # y) # ys | [] \<Rightarrow> [[c]])))"

section \<open>Regular expressions\<close>

text \<open>
  The parser locates everything with Python's \<open>re\<close> module. A pattern is a term of
  \<open>regex\<close>; \<open>rx r st\<close> lists, in the backtracking order of \<open>re\<close>, every way \<open>r\<close> matches
  at the state \<open>st\<close>. A state holds the character before the position (\<open>None\<close> at the
  start of the text), the text still to read and the groups captured so far. The flags
  are written into the pattern: under DOTALL the dot is \<open>Cls (\<lambda>_. True)\<close>, otherwise
  \<open>Cls (\<lambda>c. c \<noteq> nl)\<close>; under IGNORECASE a literal is \<open>LitI\<close>; under MULTILINE \<open>^\<close> and
  \<open>$\<close> are \<open>Bol\<close> and \<open>Eol\<close>, otherwise they are \<open>Bos\<close> and \<open>Eos\<close>; \<open>\Z\<close> is \<open>EndZ\<close>.
\<close>

datatype regex =
    Eps
  | Cls "char \<Rightarrow> bool"
  | Lit string
  | LitI string
  | Seq regex regex
  | Alt regex regex
  | Star regex
  | Lazy regex
  | Grp nat regex
  | Ahead regex
  | Bos
  | Bol
  | Eol
  | Eos
  | EndZ

type_synonym mstate = "char option \<times> string \<times> (nat \<times> string) list"

definition last_opt :: "char option \<Rightarrow> string \<Rightarrow> char option" where
  "last_opt q w = (if w = [] then q else Some (last w))"

function rx :: "regex \<Rightarrow> mstate \<Rightarrow> mstate list" where
  "rx Eps st = [st]"
| "rx (Cls P) (q, s, g) =
     (case s of [] \<Rightarrow> [] | c # cs \<Rightarrow> if P c then [(Some c, cs, g)] else [])"
| "rx (Lit w) (q, s, g) =
     (if startswith_by id w s then [(last_opt q (take (length w) s), drop (length w) s, g)] else [])"
| "rx (LitI w) (q, s, g) =
     (if startswith_by lower_char w s
      then [(last_opt q (take (length w) s), drop (length w) s, g)] else [])"
| "rx (Seq a b) st = concat (map (rx b) (rx a st))"
| "rx (Alt a b) st = rx a st @ rx b st"
| "rx (Star r) (q, s, g) =
     concat (map (rx (Star r))
               (filter (\<lambda>st'. length (fst (snd st')) < length s) (rx r (q, s, g))))
     @ [(q, s, g)]"
| "rx (Lazy r) (q, s, g) =
     (q, s, g) #
     concat (map (rx (Lazy r))
               (filter (\<lambda>st'. length (fst (snd st')) < length s) (rx r (q, s, g))))"
| "rx (Grp n r) (q, s, g) =
     map (\<lambda>st'. (fst st', fst (snd st'),
                  (n, take (length s - length (fst (snd st'))) s) # snd (snd st')))
         (rx r (q, s, g))"
| "rx (Ahead r) st = (if rx r st = [] then [] else [st])"
| "rx Bos (q, s, g) = (if q = None then [(q, s, g)] else [])"
| "rx Bol (q, s, g) = (if q = None \<or> q = Some nl then [(q, s, g)] else [])"
| "rx Eol (q, s, g) = (if s = [] \<or> hd s = nl then [(q, s, g)] else [])"
| "rx Eos (q, s, g) = (if s = [] \<or> s = [nl] then [(q, s, g)] else [])"
| "rx EndZ (q, s, g) = (if s = [] then [(q, s, g)] else [])"
  by pat_completeness auto
termination
  by (relation "measures [\<lambda>(r, st). size r, \<lambda>(r, st). length (fst (snd st))]") auto

fun seqs :: "regex list \<Rightarrow> regex" where
  "seqs [] = Eps"
| "seqs [r] = r"
| "seqs (r # rs) = Seq r (seqs rs)"

definition plus :: "regex \<Rightarrow> regex" where
  \<comment> \<open>\<open>r+\<close>\<close>
  "plus r = Seq r (Star r)"

definition at_least :: "nat \<Rightarrow> regex \<Rightarrow> regex" where
  \<comment> \<open>\<open>r{n,}\<close>\<close>
  "at_least n r = seqs (replicate n r @ [Star r])"

definition ws :: regex where
  \<comment> \<open>\<open>\s\<close>\<close>
  "ws = Cls is_space"

definition dot :: regex where
  \<comment> \<open>\<open>.\<close> without DOTALL\<close>
  "dot = Cls (\<lambda>c. c \<noteq> nl)"

definition dot_all :: regex where
  \<comment> \<open>\<open>.\<close> under DOTALL\<close>
  "dot_all = Cls (\<lambda>c. True)"

fun re_search_from :: "regex \<Rightarrow> char option \<Rightarrow> string \<Rightarrow> mstate option" where
  "re_search_from r q [] = (case rx r (q, [], []) of m # _ \<Rightarrow> Some m | [] \<Rightarrow> None)"
| "re_search_from r q (c # cs) =
     (case rx r (q, c # cs, []) of m # _ \<Rightarrow> Some m | [] \<Rightarrow> re_search_from r (Some c) cs)"

definition re_search :: "regex \<Rightarrow> string \<Rightarrow> mstate option" where
  \<comment> \<open>\<open>re.search(r, s)\<close>: the first match at the leftmost position that has one\<close>
  "re_search r s = re_search_from r None s"

definition re_match :: "regex \<Rightarrow> string \<Rightarrow> mstate option" where
  \<comment> \<open>\<open>re.match(r, s)\<close>: a match at the start of the text only\<close>
  "re_match r s = (case rx r (None, s, []) of m # _ \<Rightarrow> Some m | [] \<Rightarrow> None)"

definition group :: "mstate \<Rightarrow> nat \<Rightarrow> string" where
  \<comment> \<open>\<open>match.group(n)\<close> for a group that took part in the match\<close>
  "group m n = (case map_of (snd (snd m)) n of Some t \<Rightarrow> t | None \<Rightarrow> [])"

section \<open>Field extractor\<close>

definition REQUIRED_FIELDS :: "string list" where
  "REQUIRED_FIELDS = [''GENERATED_ON'', ''SYSTEM_SERIALNO'', ''DELL_SERVICETAG'',
                      ''MODEL_NO'', ''HOSTNAME'', ''LOCATION'']"

definition SERVICES :: "string list" where
  "SERVICES = [''NFS'', ''CIFS'', ''NDMP'', ''CLOUD_TIER'', ''REPLICATION'']"

definition field_pattern :: "string \<Rightarrow> regex" where
  \<comment> \<open>\<open>rf'^{field}=(.*)$'\<close> with \<open>re.MULTILINE\<close>\<close>
  "field_pattern field = seqs [Bol, Lit (field @ ''=''), Grp 1 (Star dot), Eol]"

definition extract_field :: "string \<Rightarrow> string \<Rightarrow> string" where
  "extract_field content field =
     (case re_search (field_pattern field) content of
        Some m \<Rightarrow> strip (group m 1)
      | None \<Rightarrow> ''N/A'')"


section \<open>Service status classifier\<close>

definition nfs_enabled_pattern :: regex where
  \<comment> \<open>\<open>The NFS system is currently active and running\<close>, IGNORECASE\<close>
  "nfs_enabled_pattern = LitI ''The NFS system is currently active and running''"

definition nfs_disabled_pattern :: regex where
  \<comment> \<open>\<open>NFS.*disabled|NFS.*not.*running\<close>, IGNORECASE\<close>
  "nfs_disabled_pattern =
     Alt (seqs [LitI ''NFS'', Star dot, LitI ''disabled''])
         (seqs [LitI ''NFS'', Star dot, LitI ''not'', Star dot, LitI ''running''])"

definition cifs_disabled_pattern :: regex where
  \<comment> \<open>\<open>CIFS is disabled\<close>, IGNORECASE\<close>
  "cifs_disabled_pattern = LitI ''CIFS is disabled''"

definition cifs_enabled_pattern :: regex where
  \<comment> \<open>\<open>CIFS.*enabled|CIFS.*active\<close>, IGNORECASE\<close>
  "cifs_enabled_pattern =
     Alt (seqs [LitI ''CIFS'', Star dot, LitI ''enabled''])
         (seqs [LitI ''CIFS'', Star dot, LitI ''active''])"

definition ndmp_disabled_pattern :: regex where
  \<comment> \<open>\<open>NDMP daemon admin_state: disabled\<close>, IGNORECASE\<close>
  "ndmp_disabled_pattern = LitI ''NDMP daemon admin_state: disabled''"

definition ndmp_enabled_pattern :: regex where
  \<comment> \<open>\<open>NDMP daemon admin_state: enabled\<close>, IGNORECASE\<close>
  "ndmp_enabled_pattern = LitI ''NDMP daemon admin_state: enabled''"

definition cloud_tier_pattern :: regex where
  \<comment> \<open>\<open>CLOUD TIER.*:\<close>, no flags\<close>
  "cloud_tier_pattern = seqs [Lit ''CLOUD TIER'', Star dot, Lit '':'']"

definition cloud_unit_pattern :: regex where
  \<comment> \<open>\<open>Cloud Unit:\<close>, no flags\<close>
  "cloud_unit_pattern = Lit ''Cloud Unit:''"

definition cloud_disabled_pattern :: regex where
  \<comment> \<open>\<open>cloud.*disabled\<close>, IGNORECASE\<close>
  "cloud_disabled_pattern = seqs [LitI ''cloud'', Star dot, LitI ''disabled'']"

definition repl_enabled_pattern :: regex where
  \<comment> \<open>\<open>Enabled:\s+yes\<close>, IGNORECASE\<close>
  "repl_enabled_pattern = seqs [LitI ''Enabled:'', plus ws, LitI ''yes'']"

definition repl_disabled_pattern :: regex where
  \<comment> \<open>\<open>Enabled:\s+no|replication.*disabled\<close>, IGNORECASE\<close>
  "repl_disabled_pattern =
     Alt (seqs [LitI ''Enabled:'', plus ws, LitI ''no''])
         (seqs [LitI ''replication'', Star dot, LitI ''disabled''])"

definition repl_status_pattern :: regex where
  \<comment> \<open>\<open>Replication Status\<close>, no flags\<close>
  "repl_status_pattern = Lit ''Replication Status''"

definition found :: "regex \<Rightarrow> string \<Rightarrow> bool" where
  \<comment> \<open>\<open>re.search(r, content)\<close> read as a truth value\<close>
  "found r content = (re_search r content \<noteq> None)"

definition nfs_status :: "string \<Rightarrow> string" where
  "nfs_status content =
     (if found nfs_enabled_pattern content then ''Enabled''
      else if found nfs_disabled_pattern content then ''Disabled''
      else ''Unknown'')"

definition cifs_status :: "string \<Rightarrow> string" where
  "cifs_status content =
     (if found cifs_disabled_pattern content then ''Disabled''
      else if found cifs_enabled_pattern content then ''Enabled''
      else ''Unknown'')"

definition ndmp_status :: "string \<Rightarrow> string" where
  "ndmp_status content =
     (if found ndmp_disabled_pattern content then ''Disabled''
      else if found ndmp_enabled_pattern content then ''Enabled''
      else ''Unknown'')"

definition cloud_tier_status :: "string \<Rightarrow> string" where
  "cloud_tier_status content =
     (if found cloud_tier_pattern content \<or> found cloud_unit_pattern content then ''Enabled''
      else if found cloud_disabled_pattern content then ''Disabled''
      else ''Unknown'')"

definition replication_status :: "string \<Rightarrow> string" where
  "replication_status content =
     (if found repl_enabled_pattern content then ''Enabled''
      else if found repl_disabled_pattern content then ''Disabled''
      else if found repl_status_pattern content then ''Configured''
      else ''Unknown'')"

definition parse_services_status :: "string \<Rightarrow> (string \<times> string) list" where
  "parse_services_status content =
     [(''NFS'', nfs_status content),
      (''CIFS'', cifs_status content),
      (''NDMP'', ndmp_status content),
      (''CLOUD_TIER'', cloud_tier_status content),
      (''REPLICATION'', replication_status content)]"

section \<open>More string operations\<close>

function split_ws2 :: "string \<Rightarrow> string list" where
  \<comment> \<open>\<open>re.split(r'\s{2,}', s)\<close>: cut at every run of two or more whitespace characters\<close>
  "split_ws2 [] = [[]]"
| "split_ws2 (c # s) =
     (if is_space c \<and> s \<noteq> [] \<and> is_space (hd s) then [] # split_ws2 (dropWhile is_space s)
      else (case split_ws2 s of y # ys \<Rightarrow> (c # y) # ys | [] \<Rightarrow> [[c]]))"
  by pat_completeness auto
termination
  by (relation "measure length") (auto simp: length_dropWhile_le less_Suc_eq_le)

function split_str :: "string \<Rightarrow> string \<Rightarrow> string list" where
  \<comment> \<open>\<open>s.split(sep)\<close> for a separator of one or more characters\<close>
  "split_str sep [] = [[]]"
| "split_str sep (c # s) =
     (if sep \<noteq> [] \<and> startswith (c # s) sep then [] # split_str sep (drop (length sep) (c # s))
      else (case split_str sep s of y # ys \<Rightarrow> (c # y) # ys | [] \<Rightarrow> [[c]]))"
  by pat_completeness auto
termination
  by (relation "measure (\<lambda>(sep, s). length s)") auto

definition after_first :: "char \<Rightarrow> string \<Rightarrow> string" where
  \<comment> \<open>\<open>s.split(c, 1)[1]\<close> for a text that contains \<open>c\<close>\<close>
  "after_first c s = tl (dropWhile (\<lambda>x. x \<noteq> c) s)"

fun split_ahead_tail :: "string \<Rightarrow> string \<Rightarrow> string list" where
  "split_ahead_tail sep [] = [[]]"
| "split_ahead_tail sep (c # s) =
     (if s \<noteq> [] \<and> startswith s sep then [c] # split_ahead_tail sep s
      else (case split_ahead_tail sep s of y # ys \<Rightarrow> (c # y) # ys | [] \<Rightarrow> [[c]]))"

definition split_ahead :: "string \<Rightarrow> string \<Rightarrow> string list" where
  \<comment> \<open>\<open>re.split(r'(?=sep)', s)\<close>, which since Python 3.7 splits on empty matches: a
      cut before every occurrence of \<open>sep\<close>; a cut at the very start leaves an empty
      first piece\<close>
  "split_ahead sep s =
     (if s \<noteq> [] \<and> startswith s sep then [] # split_ahead_tail sep s
      else split_ahead_tail sep s)"

fun find_from :: "string \<Rightarrow> string \<Rightarrow> int \<Rightarrow> int" where
  "find_from w [] i = (if w = [] then i else -1)"
| "find_from w (c # s) i = (if startswith (c # s) w then i else find_from w s (i + 1))"

definition find_str :: "string \<Rightarrow> string \<Rightarrow> int" where
  \<comment> \<open>\<open>s.find(w)\<close>: the index of the first occurrence, -1 when there is none\<close>
  "find_str s w = find_from w s 0"

definition slice_index :: "nat \<Rightarrow> int \<Rightarrow> nat" where
  \<comment> \<open>a slice bound: a negative bound counts from the end, and bounds are clamped\<close>
  "slice_index n i = (if i < 0 then nat (max 0 (int n + i)) else min n (nat i))"

definition py_slice :: "string \<Rightarrow> int \<Rightarrow> int \<Rightarrow> string" where
  \<comment> \<open>\<open>s[a:b]\<close>\<close>
  "py_slice s a b =
     (let i = slice_index (length s) a; j = slice_index (length s) b
      in take (j - i) (drop i s))"

fun join :: "string \<Rightarrow> string list \<Rightarrow> string" where
  \<comment> \<open>\<open>sep.join(xs)\<close>\<close>
  "join sep [] = []"
| "join sep [x] = x"
| "join sep (x # xs) = x @ sep @ join sep xs"

definition remove_stars :: "string \<Rightarrow> string" where
  \<comment> \<open>\<open>re.sub(r'\*', '', line)\<close>\<close>
  "remove_stars line = filter (\<lambda>c. c \<noteq> CHR ''*'') line"

definition basename :: "string \<Rightarrow> string" where
  \<comment> \<open>\<open>os.path.basename\<close>: what follows the last slash\<close>
  "basename path = rev (takeWhile (\<lambda>c. c \<noteq> CHR ''/'') (rev path))"

section \<open>Dictionaries\<close>

text \<open>
  A Python dict is an association list in insertion order: storing under a key that is
  present replaces the value in place, storing under a new key appends.
\<close>

fun dict_set :: "'k \<Rightarrow> 'v \<Rightarrow> ('k \<times> 'v) list \<Rightarrow> ('k \<times> 'v) list" where
  "dict_set k v [] = [(k, v)]"
| "dict_set k v ((k', v') # d) = (if k = k' then (k, v) # d else (k', v') # dict_set k v d)"

definition dict_get :: "('k \<times> 'v) list \<Rightarrow> 'k \<Rightarrow> 'v option" where
  "dict_get d k = map_of d k"

type_synonym row = "(string \<times> string) list"

function re_findall_from :: "regex \<Rightarrow> char option \<Rightarrow> string \<Rightarrow> mstate list" where
  \<comment> \<open>the successive non-overlapping matches, each search resuming where the last match
      ended (one character further after an empty match)\<close>
  "re_findall_from r q s =
     (case re_search_from r q s of
        None \<Rightarrow> []
      | Some m \<Rightarrow>
          m # (if length (fst (snd m)) < length s then re_findall_from r (fst m) (fst (snd m))
               else (case s of [] \<Rightarrow> [] | c # cs \<Rightarrow> re_findall_from r (Some c) cs)))"
  by pat_completeness auto
termination
  by (relation "measure (\<lambda>(r, q, s). length s)") auto

definition re_findall :: "regex \<Rightarrow> string \<Rightarrow> mstate list" where
  "re_findall r s = re_findall_from r None s"


section \<open>Retention-lock and replication lookup tables\<close>

text \<open>
  Both tables are dicts from a volume path to a dict with a fixed set of keys, all of
  them set when the dict is created; such a dict is a record here.
\<close>

record retention_info =
  Retention_Lock :: string
  Lock_Mode :: string
  Min_Retention_Period :: string
  Max_Retention_Period :: string

record replication_data =
  Mode :: string
  Connection_Host :: string
  Enabled :: string

definition not_space :: regex where
  \<comment> \<open>\<open>[^\s]\<close>\<close>
  "not_space = Cls (\<lambda>c. \<not> is_space c)"

definition dashes :: regex where
  \<comment> \<open>\<open>-+\<close>\<close>
  "dashes = plus (Lit ''-'')"

definition retention_pattern :: regex where
  \<comment> \<open>\<open>Mtree: (/data/col1/[^\s]+)\s*\n\s*Option\s+Value\s*\n-+\s+-+\s*\n(.*?)\n-+\s+-+(?=\s*\n|$)\<close>
      with DOTALL and MULTILINE\<close>
  "retention_pattern =
     seqs [Lit ''Mtree: '', Grp 1 (Seq (Lit ''/data/col1/'') (plus not_space)),
           Star ws, Lit [nl], Star ws, Lit ''Option'', plus ws, Lit ''Value'', Star ws, Lit [nl],
           dashes, plus ws, dashes, Star ws, Lit [nl],
           Grp 2 (Lazy dot_all), Lit [nl], dashes, plus ws, dashes,
           Ahead (Alt (Seq (Star ws) (Lit [nl])) Eol)]"

definition retention_default :: retention_info where
  "retention_default =
     \<lparr>Retention_Lock = ''disabled'', Lock_Mode = ''N/A'',
      Min_Retention_Period = ''N/A'', Max_Retention_Period = ''N/A''\<rparr>"

definition retention_option :: "retention_info \<Rightarrow> string \<Rightarrow> retention_info" where
  \<comment> \<open>the body of the loop over the lines of one options section\<close>
  "retention_option info line =
     (if strip line = [] then info
      else let parts = split_ws2 (strip line) in
        if length parts \<ge> 2 then
          (let option = strip (parts ! 0); value = strip (parts ! 1) in
           if option = ''Retention-lock'' then
             (if startswith (lower_str value) ''enabled''
              then info\<lparr>Retention_Lock := ''enabled''\<rparr>
              else info\<lparr>Retention_Lock := ''disabled''\<rparr>)
           else if option = ''Retention-lock mode'' then
             info\<lparr>Lock_Mode := (if value \<noteq> ''N/A'' then value else ''N/A'')\<rparr>
           else if option = ''Retention-lock min-retention-period'' then
             info\<lparr>Min_Retention_Period := value\<rparr>
           else if option = ''Retention-lock max-retention-period'' then
             info\<lparr>Max_Retention_Period := value\<rparr>
           else info)
        else info)"

definition retention_section :: "string \<Rightarrow> retention_info" where
  "retention_section options_section =
     foldl retention_option retention_default (split_char nl (strip options_section))"

definition parse_mtree_retention_locks :: "string \<Rightarrow> (string \<times> retention_info) list" where
  "parse_mtree_retention_locks content =
     foldl (\<lambda>retention_locks m.
              dict_set (group m 1) (retention_section (group m 2)) retention_locks)
           [] (re_findall retention_pattern content)"

definition ctx_header :: regex where
  \<comment> \<open>\<open>CTX:\s+\d+\<close>\<close>
  "ctx_header = seqs [Lit ''CTX:'', plus ws, plus (Cls is_digit)]"

definition replication_pattern :: regex where
  \<comment> \<open>\<open>CTX:\s+\d+\s*\n(.*?)(?=CTX:\s+\d+|Replication Options|$)\<close> with DOTALL\<close>
  "replication_pattern =
     seqs [ctx_header, Star ws, Lit [nl], Grp 1 (Lazy dot_all),
           Ahead (Alt ctx_header (Alt (Lit ''Replication Options'') Eos))]"

definition replication_default :: replication_data where
  "replication_default = \<lparr>Mode = ''N/A'', Connection_Host = ''N/A'', Enabled = ''N/A''\<rparr>"

definition replication_line ::
  "replication_data \<times> string option \<Rightarrow> string \<Rightarrow> replication_data \<times> string option" where
  \<comment> \<open>the body of the loop over the lines of one context: the state is
      \<open>replication_data\<close> and \<open>mtree_path\<close>\<close>
  "replication_line st line0 =
     (let line = strip line0; data = fst st; mtree_path = snd st in
      if startswith line ''Mode:'' then
        (data\<lparr>Mode := strip (after_first (CHR '':'') line)\<rparr>, mtree_path)
      else if startswith line ''Destination:'' then
        (let dest_value = strip (after_first (CHR '':'') line) in
         if contains ''/data/col1/'' dest_value
         then (data, Some (''/data/col1/'' @ last (split_str ''/data/col1/'' dest_value)))
         else (data, mtree_path))
      else if startswith line ''Connection Host:'' then
        (let host_value = strip (after_first (CHR '':'') line) in
         if contains ''.'' host_value
         then (data\<lparr>Connection_Host := hd (split_char (CHR ''.'') host_value)\<rparr>, mtree_path)
         else (data\<lparr>Connection_Host := host_value\<rparr>, mtree_path))
      else if startswith line ''Enabled:'' then
        (data\<lparr>Enabled := strip (after_first (CHR '':'') line)\<rparr>, mtree_path)
      else (data, mtree_path))"

definition replication_section :: "string \<Rightarrow> replication_data \<times> string option" where
  "replication_section section =
     foldl replication_line (replication_default, None) (split_char nl (strip section))"

definition parse_mtree_replication_info :: "string \<Rightarrow> (string \<times> replication_data) list" where
  "parse_mtree_replication_info content =
     foldl (\<lambda>replication_info m.
              (case replication_section (group m 1) of
                 (data, Some mtree_path) \<Rightarrow>
                   if mtree_path \<noteq> [] then dict_set mtree_path data replication_info
                   else replication_info
               | (data, None) \<Rightarrow> replication_info))
           [] (re_findall replication_pattern content)"

section \<open>Cloud-tier sections\<close>

definition profiles_pattern :: regex where
  \<comment> \<open>\<open>Cloud Profiles\s*\n-{10,}\s*\n(.*?)(?=\nCloud Unit List|\nCloud Data-Movement|$)\<close>
      with DOTALL\<close>
  "profiles_pattern =
     seqs [Lit ''Cloud Profiles'', Star ws, Lit [nl], at_least 10 (Lit ''-''), Star ws, Lit [nl],
           Grp 1 (Lazy dot_all),
           Ahead (Alt (Lit (nl # ''Cloud Unit List''))
                   (Alt (Lit (nl # ''Cloud Data-Movement'')) Eos))]"

definition piece1 :: "string \<Rightarrow> string \<Rightarrow> string" where
  \<comment> \<open>\<open>line.split(sep)[1]\<close> for a line that starts with \<open>sep\<close>\<close>
  "piece1 sep line = (case split_str sep line of _ # y # _ \<Rightarrow> y | _ \<Rightarrow> [])"

definition or_na :: "string \<Rightarrow> string" where
  \<comment> \<open>\<open>v if v else 'N/A'\<close>\<close>
  "or_na v = (if v \<noteq> [] then v else ''N/A'')"

definition profile_line :: "row \<Rightarrow> string \<Rightarrow> row" where
  "profile_line profile_data line0 =
     (let line = strip line0 in
      if line = [] then profile_data
      else if startswith line ''Profile name:'' then
        dict_set ''Profile_Name'' (strip (piece1 ''Profile name:'' line)) profile_data
      else if startswith line ''Provider:'' then
        dict_set ''Provider'' (strip (piece1 ''Provider:'' line)) profile_data
      else if startswith line ''Endpoint:'' then
        dict_set ''Endpoint'' (strip (piece1 ''Endpoint:'' line)) profile_data
      else if startswith line ''Version:'' then
        dict_set ''Version'' (strip (piece1 ''Version:'' line)) profile_data
      else if startswith line ''Proxy host:'' then
        dict_set ''Proxy_Host'' (or_na (strip (piece1 ''Proxy host:'' line))) profile_data
      else if startswith line ''Proxy port:'' then
        dict_set ''Proxy_Port'' (or_na (strip (piece1 ''Proxy port:'' line))) profile_data
      else if startswith line ''Proxy username:'' then
        dict_set ''Proxy_Username'' (or_na (strip (piece1 ''Proxy username:'' line))) profile_data
      else profile_data)"

definition set_default :: "row \<Rightarrow> string \<Rightarrow> row" where
  \<comment> \<open>\<open>if field not in profile_data: profile_data[field] = 'N/A'\<close>\<close>
  "set_default d field = (if dict_get d field = None then dict_set field ''N/A'' d else d)"

definition profile_block :: "string \<Rightarrow> row option" where
  "profile_block block =
     (if strip block = [] \<or> \<not> contains ''Profile name:'' block then None
      else let profile_data = foldl profile_line [] (split_char nl block);
               profile_data = foldl set_default profile_data
                                [''Version'', ''Proxy_Host'', ''Proxy_Port'', ''Proxy_Username'']
           in if dict_get profile_data ''Profile_Name'' \<noteq> None
                 \<and> dict_get profile_data ''Provider'' \<noteq> None
              then Some profile_data else None)"

definition parse_cloud_profiles :: "string \<Rightarrow> row list" where
  "parse_cloud_profiles content =
     (case re_search profiles_pattern content of
        None \<Rightarrow> []
      | Some m \<Rightarrow> List.map_filter profile_block (split_ahead ''Profile name:'' (group m 1)))"

definition movement_pattern :: regex where
  \<comment> \<open>\<open>Cloud Data-Movement Configuration\s*\n-{30,}(.*?)(?=\nData-movement is scheduled)\<close>
      with DOTALL\<close>
  "movement_pattern =
     seqs [Lit ''Cloud Data-Movement Configuration'', Star ws, Lit [nl], at_least 30 (Lit ''-''),
           Grp 1 (Lazy dot_all), Ahead (Lit (nl # ''Data-movement is scheduled''))]"

definition movement_line :: "string \<Rightarrow> row option" where
  "movement_line line0 =
     (let line = strip line0 in
      if line \<noteq> [] \<and> \<not> startswith line ''-'' \<and> \<not> startswith line ''Mtree''
         \<and> \<not> contains ''Target(Tier/Unit Name)'' line
      then
        (if length line > 60 \<and> startswith line ''/data/col1/'' then
           (let mtree = strip (take 28 line);
                remainder = strip (drop 28 line);
                target = strip (take 26 remainder);
                remainder = strip (drop 26 remainder);
                policy = strip (take 13 remainder);
                value = strip (drop 13 remainder)
            in if mtree \<noteq> [] \<and> target \<noteq> [] \<and> policy \<noteq> [] \<and> value \<noteq> []
               then Some [(''Mtree'', mtree), (''Target'', target),
                          (''Policy'', policy), (''Value'', value)]
               else None)
         else None)
      else None)"

definition parse_cloud_data_movement :: "string \<Rightarrow> row list" where
  "parse_cloud_data_movement content =
     (case re_search movement_pattern content of
        None \<Rightarrow> []
      | Some m \<Rightarrow> List.map_filter movement_line (split_char nl (strip (group m 1))))"


section \<open>Storage tables\<close>

definition not_nl :: regex where
  \<comment> \<open>\<open>[^\n]\<close>\<close>
  "not_nl = Cls (\<lambda>c. c \<noteq> nl)"

definition nl_ws :: regex where
  \<comment> \<open>\<open>\n\s*\<close>\<close>
  "nl_ws = Seq (Lit [nl]) (Star ws)"

definition active_tier_usage_pattern :: regex where
  \<comment> \<open>\<open>Active Tier:\s*\nResource.*?\n(.*?)(?=\n\s*\* |\n\s*Cloud Tier|\Z)\<close>\<close>
  "active_tier_usage_pattern =
     seqs [Lit ''Active Tier:'', Star ws, Lit [nl], Lit ''Resource'', Lazy dot_all, Lit [nl],
           Grp 1 (Lazy dot_all),
           Ahead (Alt (Seq nl_ws (Lit ''* '')) (Alt (Seq nl_ws (Lit ''Cloud Tier'')) EndZ))]"

definition cloud_tier_usage_pattern :: regex where
  \<comment> \<open>\<open>Cloud Tier\s*\nResource.*?\n(.*?)(?=\n\s*\* |\n\s*Total:|\Z)\<close>\<close>
  "cloud_tier_usage_pattern =
     seqs [Lit ''Cloud Tier'', Star ws, Lit [nl], Lit ''Resource'', Lazy dot_all, Lit [nl],
           Grp 1 (Lazy dot_all),
           Ahead (Alt (Seq nl_ws (Lit ''* '')) (Alt (Seq nl_ws (Lit ''Total:'')) EndZ))]"

definition total_usage_pattern :: regex where
  \<comment> \<open>\<open>Total:\s*\nResource.*?\n(.*?)(?=\n\s*\* |\Z)\<close>\<close>
  "total_usage_pattern =
     seqs [Lit ''Total:'', Star ws, Lit [nl], Lit ''Resource'', Lazy dot_all, Lit [nl],
           Grp 1 (Lazy dot_all),
           Ahead (Alt (Seq nl_ws (Lit ''* '')) EndZ)]"

definition storage_usage_patterns :: "(string \<times> regex) list" where
  "storage_usage_patterns =
     [(''Active Tier Usage'', active_tier_usage_pattern),
      (''Cloud Tier Usage'', cloud_tier_usage_pattern),
      (''Total Usage'', total_usage_pattern)]"

definition active_tier_compression_pattern :: regex where
  \<comment> \<open>\<open>Active Tier:\s*\n\s*Pre-Comp.*?Total-Comp.*?\n.*?\n(.*?)(?=\n\s*\*.*?cleaning|\n\s*Cloud Tier:)\<close>\<close>
  "active_tier_compression_pattern =
     seqs [Lit ''Active Tier:'', Star ws, Lit [nl], Star ws, Lit ''Pre-Comp'', Lazy dot_all,
           Lit ''Total-Comp'', Lazy dot_all, Lit [nl], Lazy dot_all, Lit [nl],
           Grp 1 (Lazy dot_all),
           Ahead (Alt (seqs [nl_ws, Lit ''*'', Lazy dot_all, Lit ''cleaning''])
                      (Seq nl_ws (Lit ''Cloud Tier:'')))]"

definition cloud_tier_compression_pattern :: regex where
  \<comment> \<open>\<open>(?s)Filesys Compression.*?Cloud Tier:\s*\n.*?-{10,}\s*\n(.*?)(?=\n\s*\* Does not include)\<close>\<close>
  "cloud_tier_compression_pattern =
     seqs [Lit ''Filesys Compression'', Lazy dot_all, Lit ''Cloud Tier:'', Star ws, Lit [nl],
           Lazy dot_all, at_least 10 (Lit ''-''), Star ws, Lit [nl],
           Grp 1 (Lazy dot_all),
           Ahead (Seq nl_ws (Lit ''* Does not include''))]"

definition currently_used_pattern :: regex where
  \<comment> \<open>\<open>Currently Used:\*\s*\n\s*Pre-Comp.*?Total-Comp.*?\n.*?\n(.*?)(?=\n\s*Key:)\<close>\<close>
  "currently_used_pattern =
     seqs [Lit ''Currently Used:*'', Star ws, Lit [nl], Star ws, Lit ''Pre-Comp'', Lazy dot_all,
           Lit ''Total-Comp'', Lazy dot_all, Lit [nl], Lazy dot_all, Lit [nl],
           Grp 1 (Lazy dot_all),
           Ahead (Seq nl_ws (Lit ''Key:''))]"

definition compression_patterns :: "(string \<times> regex) list" where
  "compression_patterns =
     [(''Active Tier Compression'', active_tier_compression_pattern),
      (''Cloud Tier Compression'', cloud_tier_compression_pattern),
      (''Currently Used Summary'', currently_used_pattern)]"

definition not_dash :: regex where
  \<comment> \<open>\<open>[^-]\<close>\<close>
  "not_dash = Cls (\<lambda>c. c \<noteq> CHR ''-'')"

definition rest_of_line :: regex where
  \<comment> \<open>\<open>[^\n]*\n\<close>\<close>
  "rest_of_line = Seq (Star not_nl) (Lit [nl])"

definition mtree_active_tier_pattern :: regex where
  \<comment> \<open>\<open>Mtree Show Compression[^\n]*\n(?:[^\n]*\n)*?Active Tier:[^\n]*\n(?:-{10,}[^\n]*\n)([^-]*?)(?:-{10,}|Cloud Tier:)\<close>\<close>
  "mtree_active_tier_pattern =
     seqs [Lit ''Mtree Show Compression'', rest_of_line, Lazy rest_of_line,
           Lit ''Active Tier:'', rest_of_line, Seq (at_least 10 (Lit ''-'')) rest_of_line,
           Grp 1 (Lazy not_dash),
           Alt (at_least 10 (Lit ''-'')) (Lit ''Cloud Tier:'')]"

definition mtree_cloud_tier_pattern :: regex where
  \<comment> \<open>\<open>Mtree Show Compression[^\n]*\n(?:[^\n]*\n)*?Cloud Tier:[^\n]*\n(?:-{10,}[^\n]*\n)([^-]*?)(?:-{10,}|Key:)\<close>\<close>
  "mtree_cloud_tier_pattern =
     seqs [Lit ''Mtree Show Compression'', rest_of_line, Lazy rest_of_line,
           Lit ''Cloud Tier:'', rest_of_line, Seq (at_least 10 (Lit ''-'')) rest_of_line,
           Grp 1 (Lazy not_dash),
           Alt (at_least 10 (Lit ''-'')) (Lit ''Key:'')]"

definition mtree_list_pattern :: regex where
  \<comment> \<open>\<open>Mtree List\s*\n-{5,}\s*\nName[^\n]*Pre-Comp[^\n]*Status[^\n]*\n-{10,}[^\n]*\n((?:/data/col1/[^\n]*\n)*?)(?=-{10,}|\nMtree Options|\Z)\<close>\<close>
  "mtree_list_pattern =
     seqs [Lit ''Mtree List'', Star ws, Lit [nl], at_least 5 (Lit ''-''), Star ws, Lit [nl],
           Lit ''Name'', Star not_nl, Lit ''Pre-Comp'', Star not_nl, Lit ''Status'', rest_of_line,
           at_least 10 (Lit ''-''), rest_of_line,
           Grp 1 (Lazy (Seq (Lit ''/data/col1/'') rest_of_line)),
           Ahead (Alt (at_least 10 (Lit ''-'')) (Alt (Lit (nl # ''Mtree Options'')) EndZ))]"

definition mtree_patterns :: "(string \<times> regex) list" where
  "mtree_patterns =
     [(''Mtree Active Tier Compression'', mtree_active_tier_pattern),
      (''Mtree Cloud Tier Compression'', mtree_cloud_tier_pattern),
      (''Mtree List'', mtree_list_pattern)]"

definition table_patterns :: "(string \<times> regex) list" where
  \<comment> \<open>\<open>{**storage_usage_patterns, **compression_patterns, **mtree_patterns}\<close>; every pattern
      is searched with DOTALL and MULTILINE\<close>
  "table_patterns = storage_usage_patterns @ compression_patterns @ mtree_patterns"


definition retention_miss :: retention_info where
  \<comment> \<open>the default of \<open>retention_locks.get\<close>\<close>
  "retention_miss =
     \<lparr>Retention_Lock = ''N/A'', Lock_Mode = ''N/A'',
      Min_Retention_Period = ''N/A'', Max_Retention_Period = ''N/A''\<rparr>"

definition replication_miss :: replication_data where
  \<comment> \<open>the default of \<open>replication_info.get\<close>\<close>
  "replication_miss = \<lparr>Mode = ''N/A'', Connection_Host = ''N/A'', Enabled = ''N/A''\<rparr>"

definition get_or :: "('k \<times> 'v) list \<Rightarrow> 'k \<Rightarrow> 'v \<Rightarrow> 'v" where
  \<comment> \<open>\<open>d.get(k, default)\<close>\<close>
  "get_or d k dflt = (case dict_get d k of Some v \<Rightarrow> v | None \<Rightarrow> dflt)"

definition mtree_list_row ::
  "(string \<times> retention_info) list \<Rightarrow> (string \<times> replication_data) list \<Rightarrow> string \<Rightarrow> row option"
where
  "mtree_list_row retention_locks replication_info line =
     (let clean_line = strip (remove_stars line);
          parts = split_ws2 clean_line
      in if length parts \<ge> 3 then
           (let mtree_name = strip (parts ! 0);
                pre_comp_size = strip (parts ! 1);
                status = strip (parts ! 2);
                retention_info = get_or retention_locks mtree_name retention_miss;
                repl_info = get_or replication_info mtree_name replication_miss
            in Some [(''Name'', mtree_name),
                     (''Pre_Comp_GiB'', pre_comp_size),
                     (''Status'', status),
                     (''Retention_Lock'', Retention_Lock retention_info),
                     (''Lock_Mode'', Lock_Mode retention_info),
                     (''Min_Retention_Period'', Min_Retention_Period retention_info),
                     (''Max_Retention_Period'', Max_Retention_Period retention_info),
                     (''Replication_Mode'', Mode repl_info),
                     (''Replication_Host'', Connection_Host repl_info),
                     (''Replication_Enabled'', Enabled repl_info)])
         else None)"

definition split_total_reduction :: "string \<Rightarrow> string \<times> string" where
  "split_total_reduction value =
     (if contains ''('' value \<and> contains '')'' value
      then (hd (split_char (CHR ''('') value),
            rstrip_char (CHR '')'') (split_char (CHR ''('') value ! 1))
      else (value, ''N/A''))"

definition dash_na :: "string \<Rightarrow> string" where
  \<comment> \<open>\<open>v if v != '-' else 'N/A'\<close>\<close>
  "dash_na v = (if v \<noteq> ''-'' then v else ''N/A'')"

definition mtree_name_pattern :: regex where
  \<comment> \<open>\<open>^(/data/col1/[^\s]+)\s+(.*)\<close>, no flags\<close>
  "mtree_name_pattern =
     seqs [Bos, Grp 1 (Seq (Lit ''/data/col1/'') (plus not_space)), plus ws, Grp 2 (Star dot)]"

definition mtree_compression_row :: "string \<Rightarrow> row option" where
  "mtree_compression_row line =
     (let clean_line = strip (remove_stars line) in
      if length clean_line > 35 then
        (case re_match mtree_name_pattern clean_line of
           None \<Rightarrow> None
         | Some match_data \<Rightarrow>
             (let mtree_name = group match_data 1;
                  remainder = strip (group match_data 2);
                  values = split_ws remainder
              in if length values \<ge> 10 then
                   (let tr24 = split_total_reduction (dash_na (values ! 4));
                        tr7 = split_total_reduction (dash_na (values ! 9))
                    in Some [(''Mtree'', mtree_name),
                             (''Pre_24hrs_GiB'', dash_na (values ! 0)),
                             (''Post_24hrs_GiB'', dash_na (values ! 1)),
                             (''Global_24hrs'', dash_na (values ! 2)),
                             (''Local_24hrs'', dash_na (values ! 3)),
                             (''Total_24hrs'', fst tr24),
                             (''Reduction_24hrs_Percent'', snd tr24),
                             (''Pre_7days_GiB'', dash_na (values ! 5)),
                             (''Post_7days_GiB'', dash_na (values ! 6)),
                             (''Global_7days'', dash_na (values ! 7)),
                             (''Local_7days'', dash_na (values ! 8)),
                             (''Total_7days'', fst tr7),
                             (''Reduction_7days_Percent'', snd tr7)])
                 else None))
      else None)"

definition value_at :: "string list \<Rightarrow> nat \<Rightarrow> string" where
  \<comment> \<open>\<open>values[i] if len(values) > i else 'N/A'\<close>\<close>
  "value_at values i = (if length values > i then values ! i else ''N/A'')"

definition usage_row :: "string \<Rightarrow> row option" where
  "usage_row line =
     (let clean_line = strip (remove_stars line) in
      if length clean_line > 18 then
        (let resource = strip (take 18 clean_line);
             remainder = strip (drop 18 clean_line);
             values = split_ws remainder
         in if values \<noteq> [] \<and> length values \<ge> 1 then
              Some [(''Resource'', resource),
                    (''Size_GiB'', value_at values 0),
                    (''Used_GiB'', value_at values 1),
                    (''Avail_GiB'', value_at values 2),
                    (''Use_Percent'', value_at values 3),
                    (''Cleanable_GiB'', value_at values 4)]
            else None)
      else None)"

definition compression_metric :: "string list \<Rightarrow> string \<times> string list" where
  \<comment> \<open>the metric name and the value tokens of a compression line of two or more tokens\<close>
  "compression_metric parts =
     (if parts ! 0 \<in> set [''Currently'', ''Last'', ''Active'', ''Cloud'', ''Total'', ''Written:''] then
        (if parts ! 0 = ''Currently'' \<and> length parts > 1 \<and> parts ! 1 = ''Used:''
         then (''Currently Used'', drop 2 parts)
         else if parts ! 0 = ''Last'' \<and> length parts > 2
         then (parts ! 0 @ '' '' @ parts ! 1 @ '' '' @ parts ! 2, drop 3 parts)
         else if parts ! 0 \<in> set [''Active'', ''Cloud'']
         then (parts ! 0 @ '' '' @ parts ! 1, drop 2 parts)
         else if parts ! 0 = ''Total'' then (''Total'', drop 1 parts)
         else if parts ! 0 = ''Written:'' then (''Written'', drop 1 parts)
         else (parts ! 0, drop 1 parts))
      else (rstrip_char (CHR '':'') (parts ! 0), drop 1 parts))"

definition compression_row :: "string \<Rightarrow> row option" where
  "compression_row line =
     (let clean_line = strip (remove_stars line) in
      if contains '':'' clean_line
         \<or> list_ex (\<lambda>tier. contains tier clean_line)
              [''Currently Used'', ''Last 7 days'', ''Last 24 hrs'', ''Active Tier'',
               ''Cloud Tier'', ''Total'', ''Written'']
      then
        (let parts = split_ws clean_line in
         if length parts \<ge> 2 then
           (let metric = fst (compression_metric parts);
                values = snd (compression_metric parts)
            in if length values \<ge> 2 then
                 Some [(''Metric'', metric),
                       (''Pre_Comp_GiB'', value_at values 0),
                       (''Post_Comp_GiB'', value_at values 1),
                       (''Global_Comp_Factor'', value_at values 2),
                       (''Local_Comp_Factor'', value_at values 3),
                       (''Total_Comp_Factor'', value_at values 4)]
               else None)
         else None)
      else None)"

definition process_line ::
  "string \<Rightarrow> (string \<times> retention_info) list \<Rightarrow> (string \<times> replication_data) list
     \<Rightarrow> string \<Rightarrow> row option"
where
  \<comment> \<open>the body of the loop over the lines of a located table: the row the line adds,
      if it adds one\<close>
  "process_line table_name retention_locks replication_info line =
     (let is_compression_table =
            (contains ''Compression'' table_name \<or> contains ''Currently Used'' table_name);
          is_usage_table = contains ''Usage'' table_name;
          is_mtree_table = contains ''Mtree'' table_name
      in if contains ''----'' line \<or> contains ''-----------'' line \<or> strip line = [] then None
         else if list_ex (\<lambda>header. contains header line)
                   [''Resource'', ''Size GiB'', ''Pre-Comp'', ''Post-Comp''] then None
         else if is_mtree_table \<and> contains ''Mtree List'' table_name \<and> strip line \<noteq> []
                 \<and> startswith (strip line) ''/data/col1/''
         then mtree_list_row retention_locks replication_info line
         else if is_mtree_table \<and> strip line \<noteq> [] \<and> startswith (strip line) ''/data/col1/''
         then mtree_compression_row line
         else if is_usage_table \<and> startswith (strip line) ''/''
         then usage_row line
         else if is_compression_table \<and> strip line \<noteq> [] \<and> \<not> startswith (strip line) ''(''
                 \<and> \<not> startswith (strip line) ''Key:''
         then compression_row line
         else None)"

definition decode_lines ::
  "string \<Rightarrow> (string \<times> retention_info) list \<Rightarrow> (string \<times> replication_data) list
     \<Rightarrow> string list \<Rightarrow> row list"
where
  \<comment> \<open>the loop \<open>for line in lines\<close>: the rows appended, in order\<close>
  "decode_lines table_name retention_locks replication_info lines =
     List.map_filter (process_line table_name retention_locks replication_info) lines"

fun note_loop :: "string list \<Rightarrow> string list \<Rightarrow> string list" where
  \<comment> \<open>collects the lines that start with an asterisk and stops at the first other
      non-blank line once a note line has been seen\<close>
  "note_loop [] note_lines = note_lines"
| "note_loop (line # ls) note_lines =
     (if startswith (strip line) ''*'' then note_loop ls (note_lines @ [strip line])
      else if strip line \<noteq> [] \<and> \<not> startswith (strip line) ''*'' \<and> note_lines \<noteq> [] then note_lines
      else note_loop ls note_lines)"

datatype tval = Rows "row list" | Note string

definition table_step ::
  "string \<Rightarrow> (string \<times> retention_info) list \<Rightarrow> (string \<times> replication_data) list
     \<Rightarrow> (string \<times> tval) list \<Rightarrow> string \<times> regex \<Rightarrow> (string \<times> tval) list"
where
  \<comment> \<open>the body of the loop over \<open>table_patterns\<close>\<close>
  "table_step content retention_locks replication_info storage_data entry =
     (case re_search (snd entry) content of
        None \<Rightarrow> storage_data
      | Some m \<Rightarrow>
          (let table_name = fst entry;
               table_section = group m 1;
               rows = decode_lines table_name retention_locks replication_info
                        (split_char nl (strip table_section));
               storage_data = dict_set table_name (Rows rows) storage_data;
               note_start = find_str content table_section + int (length table_section);
               note_section = py_slice content note_start (note_start + 500);
               note_lines = note_loop (split_char nl note_section) []
           in if note_lines \<noteq> []
              then dict_set (table_name @ ''_note'') (Note (join '' '' note_lines)) storage_data
              else storage_data))"

definition parse_storage_tables :: "string \<Rightarrow> (string \<times> tval) list" where
  "parse_storage_tables content =
     (let retention_locks = parse_mtree_retention_locks content;
          replication_info = parse_mtree_replication_info content
      in foldl (table_step content retention_locks replication_info) [] table_patterns)"

section \<open>Record assembler\<close>

datatype pyval = Str string | RowList "row list" | Tables "(string \<times> tval) list"

text \<open>
  The assembler opens and reads the file inside a \<open>try\<close> block whose handler catches
  every exception. Once the text is read, nothing in the block can raise: every index
  into a list is guarded by a test on its length, and every dict that is read by key
  was created with that key. So the result of reading the file, the text or the
  exception, is the input of the model.
\<close>

datatype io_error = OSError

definition set_cloud :: "string \<Rightarrow> (string \<times> pyval) list \<Rightarrow> (string \<times> pyval) list" where
  \<comment> \<open>the cloud-tier step of the assembler\<close>
  "set_cloud content data =
     (if dict_get data ''CLOUD_TIER'' = Some (Str ''Enabled'')
      then dict_set ''CLOUD_DATA_MOVEMENT'' (RowList (parse_cloud_data_movement content))
             (dict_set ''CLOUD_PROFILES'' (RowList (parse_cloud_profiles content)) data)
      else dict_set ''CLOUD_DATA_MOVEMENT'' (RowList [])
             (dict_set ''CLOUD_PROFILES'' (RowList []) data))"

definition set_source :: "string \<Rightarrow> string option \<Rightarrow> (string \<times> pyval) list \<Rightarrow> (string \<times> pyval) list"
where
  \<comment> \<open>\<open>SOURCE_FILE\<close> and \<open>SOURCE_TAR\<close>; \<open>current_tar\<close> is the attribute \<open>_current_tar\<close>,
      \<open>None\<close> when it was never set\<close>
  "set_source file_path current_tar data =
     dict_set ''SOURCE_TAR'' (Str (case current_tar of Some t \<Rightarrow> t | None \<Rightarrow> ''N/A''))
       (dict_set ''SOURCE_FILE'' (Str (basename file_path)) data)"

definition parse_content :: "string \<Rightarrow> string \<Rightarrow> string option \<Rightarrow> (string \<times> pyval) list" where
  \<comment> \<open>the body of the \<open>try\<close> block once the file has been read\<close>
  "parse_content content file_path current_tar =
     (let data = foldl (\<lambda>data field. dict_set field (Str (extract_field content field)) data)
                   [] REQUIRED_FIELDS;
          data = foldl (\<lambda>data (service, status). dict_set service (Str status) data)
                   data (parse_services_status content);
          data = dict_set ''STORAGE_TABLES'' (Tables (parse_storage_tables content)) data;
          data = set_cloud content data
      in set_source file_path current_tar data)"

definition degraded :: "string \<Rightarrow> string option \<Rightarrow> (string \<times> pyval) list" where
  \<comment> \<open>the body of the \<open>except\<close> block\<close>
  "degraded file_path current_tar =
     (let data = map (\<lambda>field. (field, Str ''N/A'')) REQUIRED_FIELDS;
          data = foldl (\<lambda>data service. dict_set service (Str ''Unknown'') data) data SERVICES;
          data = dict_set ''STORAGE_TABLES'' (Tables []) data
      in set_source file_path current_tar data)"

definition parse_autosupport_file ::
  "io_error + string \<Rightarrow> string \<Rightarrow> string option \<Rightarrow> (string \<times> pyval) list"
where
  \<comment> \<open>\<open>read_result\<close> is what opening and reading \<open>file_path\<close> gives: the text, or the
      exception raised\<close>
  "parse_autosupport_file read_result file_path current_tar =
     (case read_result of
        Inr content \<Rightarrow> parse_content content file_path current_tar
      | Inl e \<Rightarrow> degraded file_path current_tar)"

section \<open>Sample documents\<close>

definition sample_context :: string where
  \<comment> \<open>the body of one replication context\<close>
  "sample_context = ''Mode:   source'' @ [nl] @ ''Connection Host:  h2.example.com'' @ [nl]
                    @ ''Enabled:  yes'' @ [nl]"






definition roundtrip_doc :: string where
  \<comment> \<open>the round-trip document with the usage row as the property writes it\<close>
  "roundtrip_doc =
     ''GENERATED_ON=Fri Oct 17 06:03:20 EDT 2025'' @ [nl]
     @ ''HOSTNAME=host1.example.com'' @ [nl]
     @ ''Active Tier:'' @ [nl]
     @ ''Resource           Size GiB   Used GiB   Avail GiB   Use%   Cleanable GiB'' @ [nl]
     @ ''----------------   --------   --------   ---------   ----   -------------'' @ [nl]
     @ ''/data/col1  100  50  50  50%  10'' @ [nl]"

definition roundtrip_doc_padded :: string where
  \<comment> \<open>the same document with the resource cell padded to the 18 columns of the
      fixed-width layout\<close>
  "roundtrip_doc_padded =
     ''GENERATED_ON=Fri Oct 17 06:03:20 EDT 2025'' @ [nl]
     @ ''HOSTNAME=host1.example.com'' @ [nl]
     @ ''Active Tier:'' @ [nl]
     @ ''Resource           Size GiB   Used GiB   Avail GiB   Use%   Cleanable GiB'' @ [nl]
     @ ''----------------   --------   --------   ---------   ----   -------------'' @ [nl]
     @ ''/data/col1        100  50  50  50%  10'' @ [nl]"



section \<open>Predicates of the properties\<close>




definition spec_extract_field :: "string \<Rightarrow> string \<Rightarrow> string" where
  \<comment> \<open>the field extractor in the words of its contract: the first line that starts with
      \<open>NAME=\<close> gives the value, its remainder trimmed; with no such line the value is
      the sentinel\<close>
  "spec_extract_field content field =
     (case List.find (\<lambda>line. prefix (field @ ''='') line) (split_char nl content) of
        Some line \<Rightarrow> strip (drop (length field + 1) line)
      | None \<Rightarrow> ''N/A'')"




section \<open>Basic facts\<close>

lemma dict_get_set: "dict_get (dict_set k v d) k' = (if k' = k then Some v else dict_get d k')"
  by (induction d) (auto simp: dict_get_def)

lemma dict_get_Nil: "dict_get [] k = None"
  by (simp add: dict_get_def)

lemma dict_get_Cons: "dict_get ((k, v) # d) k' = (if k' = k then Some v else dict_get d k')"
  by (auto simp: dict_get_def)

lemma startswith_by_take:
  "startswith_by f w s \<longleftrightarrow> length w \<le> length s \<and> map f (take (length w) s) = map f w"
  by (induction f w s rule: startswith_by.induct) auto

lemma startswith_prefix: "startswith s w \<longleftrightarrow> prefix w s"
  by (auto simp: startswith_def startswith_by_take prefix_def) (metis append_take_drop_id)

lemma contains_char: "contains [c] s \<longleftrightarrow> c \<in> set s"
  by (induction s) (auto simp: startswith_def)

lemma split_char_nonempty: "split_char c s \<noteq> []"
  by (induction s) (auto split: list.splits)

lemma hd_split_char: "hd (split_char c s) = takeWhile (\<lambda>x. x \<noteq> c) s"
  by (induction s) (auto simp: split_char_nonempty split: list.splits)

lemma takeWhile_absent: "c \<notin> set s \<Longrightarrow> takeWhile (\<lambda>x. x \<noteq> c) s = s"
  by (induction s) auto

section \<open>The degraded record\<close>

text \<open>
  C2. When reading the file raises, the assembler does not raise: it returns the
  degraded record, in which every allowlisted scalar field is \<open>N/A\<close>, every
  service status is \<open>Unknown\<close> and the storage-table collection is the empty dict.
  The keys \<open>CLOUD_PROFILES\<close> and \<open>CLOUD_DATA_MOVEMENT\<close>, which the \<open>try\<close> block
  sets to the empty list for every document whose cloud-tier status is not \<open>Enabled\<close>,
  are missing from the degraded record: its cloud collections are absent, not empty.
\<close>

theorem degraded_record:
  "(\<forall>field \<in> set REQUIRED_FIELDS.
      dict_get (parse_autosupport_file (Inl e) file_path current_tar) field = Some (Str ''N/A''))
   \<and> (\<forall>service \<in> set SERVICES.
      dict_get (parse_autosupport_file (Inl e) file_path current_tar) service
        = Some (Str ''Unknown''))
   \<and> dict_get (parse_autosupport_file (Inl e) file_path current_tar) ''STORAGE_TABLES''
        = Some (Tables [])
   \<and> dict_get (parse_autosupport_file (Inl e) file_path current_tar) ''CLOUD_PROFILES'' = None
   \<and> dict_get (parse_autosupport_file (Inl e) file_path current_tar) ''CLOUD_DATA_MOVEMENT''
        = None"
  by (simp add: parse_autosupport_file_def degraded_def set_source_def REQUIRED_FIELDS_def
        SERVICES_def dict_get_set dict_get_Cons dict_get_Nil)

theorem degraded_record_witness:
  "dict_get (parse_autosupport_file (Inl OSError) ''/tmp/autosupport'' None) ''HOSTNAME''
     = Some (Str ''N/A'')
   \<and> dict_get (parse_autosupport_file (Inl OSError) ''/tmp/autosupport'' None) ''CIFS''
     = Some (Str ''Unknown'')
   \<and> dict_get (parse_autosupport_file (Inl OSError) ''/tmp/autosupport'' None) ''CLOUD_PROFILES''
     = None"
  using degraded_record [of OSError "''/tmp/autosupport''" None]
  by (simp add: REQUIRED_FIELDS_def SERVICES_def)

section \<open>The cloud-tier gate\<close>







section \<open>Replication connection host\<close>

lemma after_first_host:
  assumes "startswith l ''Connection Host:''"
  shows "after_first (CHR '':'') l = drop 16 l"
proof -
  from assms obtain r where "l = ''Connection Host:'' @ r"
    by (auto simp: startswith_prefix prefix_def)
  then show ?thesis by (simp add: after_first_def)
qed

lemma host_line:
  assumes "startswith (strip l) ''Connection Host:''"
  shows "Connection_Host (fst (replication_line st l))
           = takeWhile (\<lambda>c. c \<noteq> CHR ''.'') (strip (drop 16 (strip l)))"
proof -
  have a: "\<not> startswith (strip l) ''Mode:''" "\<not> startswith (strip l) ''Destination:''"
    using assms by (auto simp: startswith_prefix prefix_def)
  show ?thesis
    using assms a
    by (auto simp: replication_line_def Let_def after_first_host hd_split_char contains_char
          takeWhile_absent)
qed

lemma other_line:
  assumes "\<not> startswith (strip y) ''Connection Host:''"
  shows "Connection_Host (fst (replication_line st y)) = Connection_Host (fst st)"
  using assms by (simp add: replication_line_def Let_def)

lemma other_lines:
  assumes "\<forall>y\<in>set ys. \<not> startswith (strip y) ''Connection Host:''"
  shows "Connection_Host (fst (foldl replication_line st ys)) = Connection_Host (fst st)"
  using assms by (induction ys arbitrary: st) (simp_all add: other_line)

text \<open>
  C10. In a replication context whose last \<open>Connection Host:\<close> line carries a value with a
  dot, the stored connection host is the part of the value before the first dot, and so
  differs from the host as the report presents it.
\<close>

theorem replication_host_short:
  assumes "split_char nl (strip section) = xs @ [l] @ ys"
      and "startswith (strip l) ''Connection Host:''"
      and "\<forall>y\<in>set ys. \<not> startswith (strip y) ''Connection Host:''"
      and "CHR ''.'' \<in> set (strip (drop 16 (strip l)))"
  shows "Connection_Host (fst (replication_section section))
           = takeWhile (\<lambda>c. c \<noteq> CHR ''.'') (strip (drop 16 (strip l)))
         \<and> Connection_Host (fst (replication_section section)) \<noteq> strip (drop 16 (strip l))"
proof -
  have "Connection_Host (fst (replication_section section))
           = takeWhile (\<lambda>c. c \<noteq> CHR ''.'') (strip (drop 16 (strip l)))"
    using assms(1-3) by (simp add: replication_section_def other_lines host_line)
  moreover have "takeWhile (\<lambda>c. c \<noteq> CHR ''.'') (strip (drop 16 (strip l)))
                   \<noteq> strip (drop 16 (strip l))"
    using assms(4) by simp
  ultimately show ?thesis by simp
qed

lemma sample_context_lines:
  "split_char nl (strip sample_context)
     = [''Mode:   source''] @ [''Connection Host:  h2.example.com''] @ [''Enabled:  yes'']"
  by code_simp

theorem replication_host_short_witness:
  "Connection_Host (fst (replication_section sample_context)) = ''h2''
   \<and> ''h2'' \<noteq> ''h2.example.com''"
proof -
  have 1: "startswith (strip ''Connection Host:  h2.example.com'') ''Connection Host:''"
    by code_simp
  have 2: "\<forall>y\<in>set [''Enabled:  yes'']. \<not> startswith (strip y) ''Connection Host:''"
    by code_simp
  have 3: "CHR ''.'' \<in> set (strip (drop 16 (strip ''Connection Host:  h2.example.com'')))"
    by code_simp
  have 4: "takeWhile (\<lambda>c. c \<noteq> CHR ''.'')
             (strip (drop 16 (strip ''Connection Host:  h2.example.com''))) = ''h2''"
    by code_simp
  show ?thesis using replication_host_short [OF sample_context_lines 1 2 3] 4 by simp
qed

section \<open>Rows of a located table\<close>



section \<open>Cross-reference linking\<close>

lemma table_step_other:
  assumes "k \<noteq> n" "k \<noteq> n @ ''_note''"
  shows "dict_get (table_step content rl ri sd (n, p)) k = dict_get sd k"
  using assms by (simp add: table_step_def Let_def dict_get_set split: option.splits)

lemma table_step_same:
  "dict_get (table_step content rl ri sd (n, p)) n =
     (case re_search p content of
        None \<Rightarrow> dict_get sd n
      | Some m \<Rightarrow> Some (Rows (decode_lines n rl ri (split_char nl (strip (group m 1))))))"
  by (simp add: table_step_def Let_def dict_get_set split: option.splits)









section \<open>Service classification\<close>

lemma last_opt_Cons: "last_opt q (c # pre) = last_opt (Some c) pre"
  by (simp add: last_opt_def)

lemma re_search_from_None:
  "re_search_from r q s = None \<longleftrightarrow> (\<forall>pre rest. s = pre @ rest \<longrightarrow> rx r (last_opt q pre, rest, []) = [])"
proof (induction s arbitrary: q)
  case Nil
  then show ?case by (simp add: last_opt_def split: list.splits)
next
  case (Cons c cs)
  have "(\<forall>pre rest. c # cs = pre @ rest \<longrightarrow> rx r (last_opt q pre, rest, []) = [])
        \<longleftrightarrow> rx r (q, c # cs, []) = []
            \<and> (\<forall>pre rest. cs = pre @ rest \<longrightarrow> rx r (last_opt (Some c) pre, rest, []) = [])"
    (is "?L \<longleftrightarrow> ?A \<and> ?B")
  proof
    assume L: ?L
    have ?A using L[rule_format, of "[]" "c # cs"] by (simp add: last_opt_def)
    moreover have ?B
    proof (intro allI impI)
      fix pre rest assume "cs = pre @ rest"
      then have "c # cs = (c # pre) @ rest" by simp
      from L[rule_format, OF this] show "rx r (last_opt (Some c) pre, rest, []) = []"
        by (simp add: last_opt_Cons)
    qed
    ultimately show "?A \<and> ?B" ..
  next
    assume AB: "?A \<and> ?B"
    show ?L
    proof (intro allI impI)
      fix pre rest assume eq: "c # cs = pre @ rest"
      show "rx r (last_opt q pre, rest, []) = []"
      proof (cases pre)
        case Nil
        with eq AB show ?thesis by (simp add: last_opt_def)
      next
        case (Cons a pre')
        with eq have "cs = pre' @ rest" "a = c" by simp_all
        with AB have "rx r (last_opt (Some c) pre', rest, []) = []" by blast
        with Cons \<open>a = c\<close> show ?thesis by (simp add: last_opt_Cons)
      qed
    qed
  qed
  with Cons.IH[of "Some c"] show ?case by (simp split: list.splits)
qed

lemma startswith_by_split:
  "startswith_by f w s \<longleftrightarrow> (\<exists>mid post. s = mid @ post \<and> map f mid = map f w)"
proof
  assume "startswith_by f w s"
  then have "s = take (length w) s @ drop (length w) s \<and> map f (take (length w) s) = map f w"
    by (simp add: startswith_by_take)
  then show "\<exists>mid post. s = mid @ post \<and> map f mid = map f w" by blast
next
  assume "\<exists>mid post. s = mid @ post \<and> map f mid = map f w"
  then obtain mid post where s: "s = mid @ post" and m: "map f mid = map f w" by blast
  from m have "length mid = length w" by (metis length_map)
  with s m show "startswith_by f w s" by (simp add: startswith_by_take)
qed

lemma found_LitI:
  "found (LitI w) content \<longleftrightarrow>
     (\<exists>pre mid post. content = pre @ mid @ post \<and> lower_str mid = lower_str w)"
  by (auto simp: found_def re_search_def re_search_from_None startswith_by_split lower_str_def)

text \<open>
  C6. CIFS and NDMP test their disabled phrase first. A document that contains, in any
  letter case and anywhere, the phrase \<open>CIFS is disabled\<close> is classified Disabled for CIFS
  also when the enabled pattern of CIFS matches it; likewise for NDMP and the phrase
  \<open>NDMP daemon admin_state: disabled\<close>.
\<close>

theorem disabled_first:
  "((\<exists>pre mid post. content = pre @ mid @ post \<and> lower_str mid = lower_str ''CIFS is disabled'')
      \<and> found cifs_enabled_pattern content
     \<longrightarrow> dict_get (parse_services_status content) ''CIFS'' = Some ''Disabled'')
   \<and> ((\<exists>pre mid post. content = pre @ mid @ post
          \<and> lower_str mid = lower_str ''NDMP daemon admin_state: disabled'')
      \<and> found ndmp_enabled_pattern content
     \<longrightarrow> dict_get (parse_services_status content) ''NDMP'' = Some ''Disabled'')"
  using found_LitI[of "''CIFS is disabled''" content]
        found_LitI[of "''NDMP daemon admin_state: disabled''" content]
  by (simp add: parse_services_status_def dict_get_Cons cifs_status_def ndmp_status_def
        cifs_disabled_pattern_def ndmp_disabled_pattern_def)

theorem disabled_first_witness:
  "found cifs_enabled_pattern ''CIFS is disabled: foo is enabled''
   \<and> dict_get (parse_services_status ''CIFS is disabled: foo is enabled'') ''CIFS''
       = Some ''Disabled''
   \<and> found ndmp_enabled_pattern
       ''NDMP daemon admin_state: enabled; ndmp daemon admin_state: DISABLED''
   \<and> dict_get (parse_services_status
                   ''NDMP daemon admin_state: enabled; ndmp daemon admin_state: DISABLED'') ''NDMP''
       = Some ''Disabled''"
proof -
  have c1: "\<exists>pre mid post. ''CIFS is disabled: foo is enabled'' = pre @ mid @ post
              \<and> lower_str mid = lower_str ''CIFS is disabled''"
    by (rule exI [of _ "[]"], rule exI [of _ "''CIFS is disabled''"],
        rule exI [of _ "'': foo is enabled''"]) simp
  have c2: "found cifs_enabled_pattern ''CIFS is disabled: foo is enabled''"
    by code_simp
  have n1: "\<exists>pre mid post.
              ''NDMP daemon admin_state: enabled; ndmp daemon admin_state: DISABLED''
                = pre @ mid @ post
              \<and> lower_str mid = lower_str ''NDMP daemon admin_state: disabled''"
    by (rule exI [of _ "''NDMP daemon admin_state: enabled; ''"],
        rule exI [of _ "''ndmp daemon admin_state: DISABLED''"], rule exI [of _ "[]"])
       code_simp
  have n2: "found ndmp_enabled_pattern
              ''NDMP daemon admin_state: enabled; ndmp daemon admin_state: DISABLED''"
    by code_simp
  show ?thesis
    using c1 c2 n1 n2
      disabled_first [of "''CIFS is disabled: foo is enabled''"]
      disabled_first [of "''NDMP daemon admin_state: enabled; ndmp daemon admin_state: DISABLED''"]
    by blast
qed


section \<open>Field extraction\<close>

lemma star_cls_Nil: "rx (Star (Cls P)) (q, [], g) = [(q, [], g)]"
  by simp

lemma star_cls_Cons:
  "rx (Star (Cls P)) (q, c # s, g)
     = (if P c then rx (Star (Cls P)) (Some c, s, g) else []) @ [(q, c # s, g)]"
  by (subst rx.simps(7)) simp

lemmas star_simps = rx.simps(7) rx.simps(8)

lemma star_cls_max:
  assumes "\<And>q' s'. s' \<noteq> [] \<Longrightarrow> P (hd s') \<Longrightarrow> f (q', s', g) = []"
  shows "concat (map f (rx (Star (Cls P)) (q, s, g)))
           = f (last_opt q (takeWhile P s), dropWhile P s, g)"
proof (induction s arbitrary: q)
  case Nil
  show ?case by (simp add: last_opt_def star_cls_Nil del: star_simps)
next
  case (Cons c s)
  show ?case
  proof (cases "P c")
    case True
    have "f (q, c # s, g) = []" using assms[of "c # s" q] True by simp
    then show ?thesis using True Cons.IH[of "Some c"]
      by (simp add: last_opt_Cons star_cls_Cons del: star_simps)
  next
    case False
    then show ?thesis by (simp add: last_opt_def star_cls_Cons del: star_simps)
  qed
qed

lemma take_takeWhile: "take (length s - length (dropWhile P s)) s = takeWhile P s"
proof -
  have "length s = length (takeWhile P s) + length (dropWhile P s)"
    by (metis length_append takeWhile_dropWhile_id)
  then have "length s - length (dropWhile P s) = length (takeWhile P s)" by simp
  then show ?thesis using takeWhile_eq_take[of P s] by simp
qed

lemma grp_star_then:
  assumes "\<And>q' s' g'. s' \<noteq> [] \<Longrightarrow> P (hd s') \<Longrightarrow> rx r (q', s', g') = []"
  shows "rx (Seq (Grp n (Star (Cls P))) r) (q, s, g)
           = rx r (last_opt q (takeWhile P s), dropWhile P s, (n, takeWhile P s) # g)"
proof -
  let ?h = "\<lambda>st'. (fst st', fst (snd st'),
              (n, take (length s - length (fst (snd st'))) s) # snd (snd st'))"
  have "rx (Seq (Grp n (Star (Cls P))) r) (q, s, g)
          = concat (map (\<lambda>st. rx r (?h st)) (rx (Star (Cls P)) (q, s, g)))"
    by (simp add: comp_def del: star_simps)
  also have "\<dots> = rx r (?h (last_opt q (takeWhile P s), dropWhile P s, g))"
    by (rule star_cls_max) (simp add: assms)
  finally show ?thesis by (simp add: take_takeWhile)
qed

lemma rx_field:
  "rx (field_pattern field) (q, s, []) =
     (if (q = None \<or> q = Some nl) \<and> prefix (field @ ''='') s
      then [(last_opt (last_opt q (field @ ''=''))
               (takeWhile (\<lambda>c. c \<noteq> nl) (drop (length field + 1) s)),
             dropWhile (\<lambda>c. c \<noteq> nl) (drop (length field + 1) s),
             [(1, takeWhile (\<lambda>c. c \<noteq> nl) (drop (length field + 1) s))])]
      else [])"
proof -
  have eol: "\<And>q' s' g'. s' \<noteq> [] \<Longrightarrow> hd s' \<noteq> nl \<Longrightarrow> rx Eol (q', s', g') = []"
    by simp
  have tail: "\<And>q1 s1. rx (Seq (Grp 1 (Star dot)) Eol) (q1, s1, [])
      = [(last_opt q1 (takeWhile (\<lambda>c. c \<noteq> nl) s1), dropWhile (\<lambda>c. c \<noteq> nl) s1,
          [(1, takeWhile (\<lambda>c. c \<noteq> nl) s1)])]"
  proof -
    fix q1 s1
    have d: "dropWhile (\<lambda>c. c \<noteq> nl) s1 = [] \<or> hd (dropWhile (\<lambda>c. c \<noteq> nl) s1) = nl"
      by (metis (mono_tags, lifting) hd_dropWhile)
    show "rx (Seq (Grp 1 (Star dot)) Eol) (q1, s1, [])
      = [(last_opt q1 (takeWhile (\<lambda>c. c \<noteq> nl) s1), dropWhile (\<lambda>c. c \<noteq> nl) s1,
          [(1, takeWhile (\<lambda>c. c \<noteq> nl) s1)])]"
      unfolding dot_def
      apply (subst grp_star_then)
       apply (rule eol; assumption)
      using d by auto
  qed
  have pat: "field_pattern field
      = Seq Bol (Seq (Lit (field @ ''='')) (Seq (Grp 1 (Star dot)) Eol))"
    by (simp add: field_pattern_def)
  have sw: "startswith_by id (field @ ''='') s \<longleftrightarrow> prefix (field @ ''='') s"
    using startswith_prefix[of s "field @ ''=''"] by (simp add: startswith_def)
  have tk: "prefix (field @ ''='') s \<Longrightarrow> take (Suc (length field)) s = field @ ''=''"
    by (auto simp: prefix_def)
  have lit: "rx (Seq (Lit (field @ ''='')) (Seq (Grp 1 (Star dot)) Eol)) (q, s, [])
      = (if prefix (field @ ''='') s
         then rx (Seq (Grp 1 (Star dot)) Eol)
                (last_opt q (field @ ''=''), drop (length field + 1) s, [])
         else [])"
    by (subst rx.simps(5)) (simp add: sw tk del: rx.simps(5) star_simps)
  have bol: "rx (Seq Bol (Seq (Lit (field @ ''='')) (Seq (Grp 1 (Star dot)) Eol))) (q, s, [])
      = (if q = None \<or> q = Some nl
         then rx (Seq (Lit (field @ ''='')) (Seq (Grp 1 (Star dot)) Eol)) (q, s, [])
         else [])"
    by (subst rx.simps(5)) (auto simp del: rx.simps(5) star_simps)
  show ?thesis
    unfolding pat bol lit tail by simp
qed

lemma split_char_unfold:
  "split_char c s = takeWhile (\<lambda>x. x \<noteq> c) s
      # (case dropWhile (\<lambda>x. x \<noteq> c) s of [] \<Rightarrow> [] | _ # rest \<Rightarrow> split_char c rest)"
  by (induction s) (auto split: list.splits)

lemma search_midline:
  assumes "y \<noteq> nl"
  shows "re_search_from (field_pattern field) (Some y) s =
     (case dropWhile (\<lambda>x. x \<noteq> nl) s of
        [] \<Rightarrow> None
      | _ # rest \<Rightarrow> re_search_from (field_pattern field) (Some nl) rest)"
  using assms
proof (induction s arbitrary: y)
  case Nil
  then show ?case by (simp add: rx_field)
next
  case (Cons c s)
  then show ?case by (cases "c = nl") (simp_all add: rx_field)
qed

lemma search_linestart:
  assumes "q = None \<or> q = Some nl"
  shows "re_search_from (field_pattern field) q s =
     (if prefix (field @ ''='') s
      then Some (last_opt (last_opt q (field @ ''=''))
                   (takeWhile (\<lambda>c. c \<noteq> nl) (drop (length field + 1) s)),
                 dropWhile (\<lambda>c. c \<noteq> nl) (drop (length field + 1) s),
                 [(1, takeWhile (\<lambda>c. c \<noteq> nl) (drop (length field + 1) s))])
      else (case dropWhile (\<lambda>x. x \<noteq> nl) s of
              [] \<Rightarrow> None
            | _ # rest \<Rightarrow> re_search_from (field_pattern field) (Some nl) rest))"
proof (cases s)
  case Nil
  with assms show ?thesis by (simp add: rx_field)
next
  case (Cons c cs)
  show ?thesis
  proof (cases "prefix (field @ ''='') s")
    case True
    with assms Cons show ?thesis by (simp add: rx_field)
  next
    case False
    show ?thesis
    proof (cases "c = nl")
      case True
      with False assms Cons show ?thesis by (simp add: rx_field)
    next
      case c: False
      have "re_search_from (field_pattern field) q s
              = re_search_from (field_pattern field) (Some c) cs"
        using False Cons by (simp add: rx_field)
      also have "\<dots> = (case dropWhile (\<lambda>x. x \<noteq> nl) cs of
                          [] \<Rightarrow> None
                        | _ # rest \<Rightarrow> re_search_from (field_pattern field) (Some nl) rest)"
        using c by (rule search_midline)
      finally show ?thesis using False c Cons by simp
    qed
  qed
qed

lemma prefix_first_line:
  assumes "nl \<notin> set w"
  shows "prefix w (takeWhile (\<lambda>c. c \<noteq> nl) s) \<longleftrightarrow> prefix w s"
proof
  assume "prefix w (takeWhile (\<lambda>c. c \<noteq> nl) s)"
  then show "prefix w s"
    by (metis prefix_order.order_trans takeWhile_is_prefix)
next
  assume "prefix w s"
  then obtain t where s: "s = w @ t" by (auto simp: prefix_def)
  have "takeWhile (\<lambda>c. c \<noteq> nl) (w @ t) = w @ takeWhile (\<lambda>c. c \<noteq> nl) t"
    using assms by (intro takeWhile_append2) auto
  with s show "prefix w (takeWhile (\<lambda>c. c \<noteq> nl) s)" by simp
qed

lemma drop_first_line:
  assumes "nl \<notin> set w" "prefix w s"
  shows "drop (length w) (takeWhile (\<lambda>c. c \<noteq> nl) s)
           = takeWhile (\<lambda>c. c \<noteq> nl) (drop (length w) s)"
proof -
  from assms(2) obtain t where s: "s = w @ t" by (auto simp: prefix_def)
  have "takeWhile (\<lambda>c. c \<noteq> nl) (w @ t) = w @ takeWhile (\<lambda>c. c \<noteq> nl) t"
    using assms(1) by (intro takeWhile_append2) auto
  with s show ?thesis by simp
qed

lemma field_search_lines:
  assumes "nl \<notin> set field" "q = None \<or> q = Some nl"
  shows "(case re_search_from (field_pattern field) q s of
            Some m \<Rightarrow> strip (group m 1) | None \<Rightarrow> ''N/A'')
         = (case List.find (\<lambda>line. prefix (field @ ''='') line) (split_char nl s) of
              Some line \<Rightarrow> strip (drop (length field + 1) line)
            | None \<Rightarrow> ''N/A'')"
  using assms(2)
proof (induction s arbitrary: q rule: length_induct)
  case (1 s)
  let ?w = "field @ ''=''"
  have w: "nl \<notin> set ?w" using assms(1) by (simp add: nl_def)
  show ?case
  proof (cases "prefix ?w s")
    case True
    have "prefix ?w (takeWhile (\<lambda>c. c \<noteq> nl) s)"
      using prefix_first_line[OF w] True by blast
    moreover have "drop (length field + 1) (takeWhile (\<lambda>c. c \<noteq> nl) s)
           = takeWhile (\<lambda>c. c \<noteq> nl) (drop (length field + 1) s)"
      using drop_first_line[OF w True] by simp
    ultimately show ?thesis
      using True 1(2)
      by (subst split_char_unfold) (simp add: search_linestart group_def)
  next
    case False
    have nf: "\<not> prefix ?w (takeWhile (\<lambda>c. c \<noteq> nl) s)"
      using prefix_first_line[OF w] False by blast
    show ?thesis
    proof (cases "dropWhile (\<lambda>x. x \<noteq> nl) s")
      case Nil
      with False nf 1(2) show ?thesis
        by (subst split_char_unfold) (simp add: search_linestart Nil)
    next
      case (Cons a rest)
      have "length rest < length s"
        by (metis Cons length_Cons length_dropWhile_le less_Suc_eq_le not_less)
      with 1(1) have IH: "(case re_search_from (field_pattern field) (Some nl) rest of
            Some m \<Rightarrow> strip (group m 1) | None \<Rightarrow> ''N/A'')
         = (case List.find (\<lambda>line. prefix (field @ ''='') line) (split_char nl rest) of
              Some line \<Rightarrow> strip (drop (length field + 1) line)
            | None \<Rightarrow> ''N/A'')"
        by blast
      show ?thesis
        using False nf 1(2) IH
        by (subst split_char_unfold) (simp add: search_linestart Cons)
    qed
  qed
qed

text \<open>
  C7. For every allowlisted field name the extracted value is the one the contract
  describes: the remainder, trimmed, of the first line that starts with the name and an
  equals sign, and \<open>N/A\<close> when no line does.
\<close>

theorem field_first_line:
  assumes "field \<in> set REQUIRED_FIELDS"
  shows "extract_field content field = spec_extract_field content field"
proof -
  have "nl \<notin> set field"
    using assms by (auto simp: REQUIRED_FIELDS_def nl_def)
  then show ?thesis
    unfolding extract_field_def spec_extract_field_def re_search_def
    by (rule field_search_lines) simp
qed

theorem field_first_line_witness:
  "''HOSTNAME'' \<in> set REQUIRED_FIELDS
   \<and> extract_field (''X=1'' @ [nl] @ ''HOSTNAME=  host1.example.com '' @ [nl] @ ''HOSTNAME=other'')
         ''HOSTNAME'' = ''host1.example.com''
   \<and> ''LOCATION'' \<in> set REQUIRED_FIELDS
   \<and> extract_field (''X=1'' @ [nl] @ ''HOSTNAME=  host1.example.com '' @ [nl] @ ''HOSTNAME=other'')
         ''LOCATION'' = ''N/A''"
proof -
  have h: "''HOSTNAME'' \<in> set REQUIRED_FIELDS" and l: "''LOCATION'' \<in> set REQUIRED_FIELDS"
    by (simp_all add: REQUIRED_FIELDS_def)
  have sh: "spec_extract_field
              (''X=1'' @ [nl] @ ''HOSTNAME=  host1.example.com '' @ [nl] @ ''HOSTNAME=other'')
              ''HOSTNAME'' = ''host1.example.com''"
    by code_simp
  have sl: "spec_extract_field
              (''X=1'' @ [nl] @ ''HOSTNAME=  host1.example.com '' @ [nl] @ ''HOSTNAME=other'')
              ''LOCATION'' = ''N/A''"
    by code_simp
  show ?thesis
    using h l sh sl field_first_line [OF h] field_first_line [OF l] by simp
qed


section \<open>Keys of the record\<close>

lemma tables_untouched:
  assumes "k \<notin> set (map fst es)" "k \<notin> set (map (\<lambda>e. fst e @ ''_note'') es)"
  shows "dict_get (foldl (table_step content rl ri) sd es) k = dict_get sd k"
  using assms
proof (induction es arbitrary: sd)
  case Nil
  then show ?case by simp
next
  case (Cons e es)
  obtain n p where e: "e = (n, p)" by (cases e)
  from Cons.prems have "k \<noteq> n" "k \<noteq> n @ ''_note''" by (auto simp: e)
  then have "dict_get (table_step content rl ri sd e) k = dict_get sd k"
    unfolding e by (rule table_step_other)
  with Cons show ?case by simp
qed

lemma tables_entry:
  assumes "distinct (map fst es)"
      and "\<forall>n \<in> set (map fst es). \<forall>n' \<in> set (map fst es). n \<noteq> n' @ ''_note''"
      and "(n, p) \<in> set es"
  shows "dict_get (foldl (table_step content rl ri) sd es) n =
     (case re_search p content of
        None \<Rightarrow> dict_get sd n
      | Some m \<Rightarrow> Some (Rows (decode_lines n rl ri (split_char nl (strip (group m 1))))))"
  using assms
proof (induction es rule: rev_induct)
  case Nil
  then show ?case by simp
next
  case (snoc e es)
  obtain n' p' where e: "e = (n', p')" by (cases e)
  show ?case
  proof (cases "(n, p) \<in> set es")
    case True
    from snoc.prems(1) True have ne: "n \<noteq> n'" by (force simp: e)
    from snoc.prems(2) True have nn: "n \<noteq> n' @ ''_note''" by (force simp: e)
    have IH: "dict_get (foldl (table_step content rl ri) sd es) n =
      (case re_search p content of
        None \<Rightarrow> dict_get sd n
      | Some m \<Rightarrow> Some (Rows (decode_lines n rl ri (split_char nl (strip (group m 1))))))"
      using snoc.IH snoc.prems True by auto
    show ?thesis
      using IH table_step_other[OF ne nn] by (simp add: e)
  next
    case False
    with snoc.prems(3) have eq: "n' = n" "p' = p" by (auto simp: e)
    from snoc.prems(1) have a: "n \<notin> set (map fst es)" by (simp add: e eq)
    from snoc.prems(2) have b: "n \<notin> set (map (\<lambda>e. fst e @ ''_note'') es)"
      by (force simp: e eq)
    show ?thesis
      using tables_untouched[OF a b] by (simp add: e eq table_step_same split: option.splits)
  qed
qed

lemma table_names_distinct: "distinct (map fst table_patterns)"
  by (simp add: table_patterns_def storage_usage_patterns_def compression_patterns_def
        mtree_patterns_def)

lemma table_names_notes:
  "\<forall>n \<in> set (map fst table_patterns). \<forall>n' \<in> set (map fst table_patterns). n \<noteq> n' @ ''_note''"
  by (simp add: table_patterns_def storage_usage_patterns_def compression_patterns_def
        mtree_patterns_def)

lemma table_entry:
  assumes "(n, p) \<in> set table_patterns"
  shows "dict_get (parse_storage_tables content) n =
     (case re_search p content of
        None \<Rightarrow> None
      | Some m \<Rightarrow>
          Some (Rows (decode_lines n (parse_mtree_retention_locks content)
                        (parse_mtree_replication_info content)
                        (split_char nl (strip (group m 1))))))"
  unfolding parse_storage_tables_def Let_def
  by (subst tables_entry[OF table_names_distinct table_names_notes assms])
     (simp add: dict_get_Nil split: option.splits)

lemma fields_fold:
  "dict_get (foldl (\<lambda>data field. dict_set field (Str (extract_field content field)) data)
               [] REQUIRED_FIELDS) k
     = (if k \<in> set REQUIRED_FIELDS then Some (Str (extract_field content k)) else None)"
  by (simp add: REQUIRED_FIELDS_def dict_get_Cons dict_get_Nil)

lemma services_fold:
  "dict_get (foldl (\<lambda>data (service, status). dict_set service (Str status) data) d
               (parse_services_status content)) k
     = (if k \<in> set SERVICES
        then map_option Str (dict_get (parse_services_status content) k)
        else dict_get d k)"
  by (simp add: parse_services_status_def SERVICES_def dict_get_set dict_get_Cons dict_get_Nil)

lemma services_total:
  "k \<in> set SERVICES \<Longrightarrow> \<exists>v. dict_get (parse_services_status content) k = Some v"
  by (auto simp: parse_services_status_def SERVICES_def dict_get_Cons)

lemma other_keys:
  "k \<in> set REQUIRED_FIELDS \<union> set SERVICES \<Longrightarrow>
     k \<noteq> ''STORAGE_TABLES'' \<and> k \<noteq> ''CLOUD_PROFILES'' \<and> k \<noteq> ''CLOUD_DATA_MOVEMENT''
     \<and> k \<noteq> ''SOURCE_FILE'' \<and> k \<noteq> ''SOURCE_TAR''"
  by (auto simp: REQUIRED_FIELDS_def SERVICES_def)

lemma parse_content_get:
  "dict_get (parse_content content file_path current_tar) k =
     (if k = ''SOURCE_TAR'' then Some (Str (case current_tar of Some t \<Rightarrow> t | None \<Rightarrow> ''N/A''))
      else if k = ''SOURCE_FILE'' then Some (Str (basename file_path))
      else if k = ''CLOUD_DATA_MOVEMENT'' then
        Some (RowList (if cloud_tier_status content = ''Enabled''
                       then parse_cloud_data_movement content else []))
      else if k = ''CLOUD_PROFILES'' then
        Some (RowList (if cloud_tier_status content = ''Enabled''
                       then parse_cloud_profiles content else []))
      else if k = ''STORAGE_TABLES'' then Some (Tables (parse_storage_tables content))
      else if k \<in> set SERVICES
        then map_option Str (dict_get (parse_services_status content) k)
      else if k \<in> set REQUIRED_FIELDS then Some (Str (extract_field content k))
      else None)"
proof -
  have ct: "dict_get (parse_services_status content) ''CLOUD_TIER''
              = Some (cloud_tier_status content)"
    by (simp add: parse_services_status_def dict_get_Cons)
  have cs: "''CLOUD_TIER'' \<in> set SERVICES" by (simp add: SERVICES_def)
  show ?thesis
    unfolding parse_content_def set_source_def set_cloud_def Let_def
    by (simp add: dict_get_set services_fold fields_fold ct cs)
qed

lemma degraded_get:
  "dict_get (degraded file_path current_tar) k =
     (if k = ''SOURCE_TAR'' then Some (Str (case current_tar of Some t \<Rightarrow> t | None \<Rightarrow> ''N/A''))
      else if k = ''SOURCE_FILE'' then Some (Str (basename file_path))
      else if k = ''STORAGE_TABLES'' then Some (Tables [])
      else if k \<in> set SERVICES then Some (Str ''Unknown'')
      else if k \<in> set REQUIRED_FIELDS then Some (Str ''N/A'')
      else None)"
  by (simp add: degraded_def set_source_def REQUIRED_FIELDS_def SERVICES_def dict_get_set
        dict_get_Cons dict_get_Nil)

text \<open>
  C3 (as amended). In every returned record the six scalar fields, the five service
  statuses, \<open>SOURCE_FILE\<close> and \<open>SOURCE_TAR\<close> hold a string and
  \<open>STORAGE_TABLES\<close> holds a dict. When the document was read, the cloud-profile and
  cloud-movement keys hold a sequence, and inside \<open>STORAGE_TABLES\<close> a table family
  has a row sequence exactly when its section pattern matches the text: a family whose
  section is missing has no key.
\<close>

theorem record_keys:
  "(\<forall>k \<in> set REQUIRED_FIELDS \<union> set SERVICES \<union> {''SOURCE_FILE'', ''SOURCE_TAR''}.
      \<exists>v. dict_get (parse_autosupport_file rr file_path current_tar) k = Some (Str v))
   \<and> (\<exists>ts. dict_get (parse_autosupport_file rr file_path current_tar) ''STORAGE_TABLES''
              = Some (Tables ts))
   \<and> (\<forall>content. rr = Inr content \<longrightarrow>
        (\<exists>ps ms. dict_get (parse_autosupport_file rr file_path current_tar) ''CLOUD_PROFILES''
                    = Some (RowList ps)
                \<and> dict_get (parse_autosupport_file rr file_path current_tar)
                    ''CLOUD_DATA_MOVEMENT'' = Some (RowList ms))
        \<and> dict_get (parse_autosupport_file rr file_path current_tar) ''STORAGE_TABLES''
            = Some (Tables (parse_storage_tables content))
        \<and> (\<forall>(n, p) \<in> set table_patterns.
              (\<exists>rows. dict_get (parse_storage_tables content) n = Some (Rows rows))
                = found p content))"
proof (intro conjI ballI allI impI)
  fix k assume k: "k \<in> set REQUIRED_FIELDS \<union> set SERVICES \<union> {''SOURCE_FILE'', ''SOURCE_TAR''}"
  show "\<exists>v. dict_get (parse_autosupport_file rr file_path current_tar) k = Some (Str v)"
  proof (cases rr)
    case (Inl e)
    then show ?thesis
      using k other_keys[of k] by (auto simp: parse_autosupport_file_def degraded_get)
  next
    case (Inr content)
    then show ?thesis
      using k services_total[of k content] other_keys[of k]
      by (auto simp: parse_autosupport_file_def parse_content_get)
  qed
next
  show "\<exists>ts. dict_get (parse_autosupport_file rr file_path current_tar) ''STORAGE_TABLES''
              = Some (Tables ts)"
    by (cases rr) (simp_all add: parse_autosupport_file_def parse_content_get degraded_get)
next
  fix content assume "rr = Inr content"
  then show "\<exists>ps ms. dict_get (parse_autosupport_file rr file_path current_tar) ''CLOUD_PROFILES''
                    = Some (RowList ps)
                \<and> dict_get (parse_autosupport_file rr file_path current_tar)
                    ''CLOUD_DATA_MOVEMENT'' = Some (RowList ms)"
    by (simp add: parse_autosupport_file_def parse_content_get)
next
  fix content assume "rr = Inr content"
  then show "dict_get (parse_autosupport_file rr file_path current_tar) ''STORAGE_TABLES''
            = Some (Tables (parse_storage_tables content))"
    by (simp add: parse_autosupport_file_def parse_content_get)
next
  fix content x assume "rr = Inr content" and x: "x \<in> set table_patterns"
  obtain n p where np: "x = (n, p)" by (cases x)
  show "case x of (n, p) \<Rightarrow>
          (\<exists>rows. dict_get (parse_storage_tables content) n = Some (Rows rows))
            = found p content"
    using x unfolding np
    by (simp add: table_entry found_def split: option.splits)
qed

lemma empty_tables: "parse_storage_tables [] = []"
  by code_simp

text \<open>
  C3 as stated fails: the storage tables of a document without a volume-list section
  have no \<open>Mtree List\<close> key, rather than an empty row sequence under that key.
\<close>

theorem missing_table_counterexample:
  "dict_get (parse_autosupport_file (Inr []) ''/tmp/autosupport'' None) ''STORAGE_TABLES''
     = Some (Tables (parse_storage_tables []))
   \<and> dict_get (parse_storage_tables []) ''Mtree List'' = None
   \<and> dict_get (parse_storage_tables []) ''Mtree List'' \<noteq> Some (Rows [])"
  by (simp add: parse_autosupport_file_def parse_content_get empty_tables dict_get_Nil
        SERVICES_def REQUIRED_FIELDS_def)

theorem record_keys_witness:
  "(\<exists>v. dict_get (parse_autosupport_file (Inr []) ''/tmp/autosupport'' None) ''HOSTNAME''
           = Some (Str v))
   \<and> (\<exists>ps. dict_get (parse_autosupport_file (Inr []) ''/tmp/autosupport'' None) ''CLOUD_PROFILES''
           = Some (RowList ps))
   \<and> \<not> found mtree_list_pattern []
   \<and> (\<nexists>rows. dict_get (parse_storage_tables []) ''Mtree List'' = Some (Rows rows))"
proof -
  have h: "''HOSTNAME'' \<in> set REQUIRED_FIELDS \<union> set SERVICES \<union> {''SOURCE_FILE'', ''SOURCE_TAR''}"
    by (simp add: REQUIRED_FIELDS_def)
  have m: "(''Mtree List'', mtree_list_pattern) \<in> set table_patterns"
    by (simp add: table_patterns_def mtree_patterns_def)
  have nf: "\<not> found mtree_list_pattern []"
    by code_simp
  note rk = record_keys [of "Inr []" "''/tmp/autosupport''" None]
  from rk h have 1: "\<exists>v. dict_get (parse_autosupport_file (Inr []) ''/tmp/autosupport'' None)
                           ''HOSTNAME'' = Some (Str v)"
    by blast
  from rk have 2: "\<exists>ps. dict_get (parse_autosupport_file (Inr []) ''/tmp/autosupport'' None)
                           ''CLOUD_PROFILES'' = Some (RowList ps)"
    by blast
  from rk m have 3: "(\<exists>rows. dict_get (parse_storage_tables []) ''Mtree List'' = Some (Rows rows))
                       = found mtree_list_pattern []"
    by blast
  show ?thesis using 1 2 3 nf by simp
qed

section \<open>The round-trip document\<close>

lemma padded_generated_on:
  "extract_field roundtrip_doc_padded ''GENERATED_ON'' = ''Fri Oct 17 06:03:20 EDT 2025''"
  by code_simp

lemma padded_hostname:
  "extract_field roundtrip_doc_padded ''HOSTNAME'' = ''host1.example.com''"
  by code_simp

lemma padded_cloud_tier: "cloud_tier_status roundtrip_doc_padded = ''Unknown''"
  by code_simp

lemma padded_tables:
  "parse_storage_tables roundtrip_doc_padded =
     [(''Active Tier Usage'',
       Rows [[(''Resource'', ''/data/col1''), (''Size_GiB'', ''100''), (''Used_GiB'', ''50''),
              (''Avail_GiB'', ''50''), (''Use_Percent'', ''50%''), (''Cleanable_GiB'', ''10'')]])]"
  by code_simp

text \<open>
  C1 (as amended). For the synthetic document whose usage row has the resource cell
  padded to the 18-column width of the fixed-width layout and no cloud-tier marker,
  parsing returns a record with \<open>GENERATED_ON\<close> and \<open>HOSTNAME\<close> verbatim, cloud-tier
  status \<open>Unknown\<close>, a single usage table of exactly one row with the six expected
  cells, and empty cloud-profile and cloud-movement sequences.
\<close>

theorem roundtrip_padded:
  "dict_get (parse_autosupport_file (Inr roundtrip_doc_padded) ''/tmp/autosupport'' None)
      ''GENERATED_ON'' = Some (Str ''Fri Oct 17 06:03:20 EDT 2025'')
   \<and> dict_get (parse_autosupport_file (Inr roundtrip_doc_padded) ''/tmp/autosupport'' None)
      ''HOSTNAME'' = Some (Str ''host1.example.com'')
   \<and> dict_get (parse_autosupport_file (Inr roundtrip_doc_padded) ''/tmp/autosupport'' None)
      ''CLOUD_TIER'' = Some (Str ''Unknown'')
   \<and> dict_get (parse_autosupport_file (Inr roundtrip_doc_padded) ''/tmp/autosupport'' None)
      ''STORAGE_TABLES''
      = Some (Tables [(''Active Tier Usage'',
           Rows [[(''Resource'', ''/data/col1''), (''Size_GiB'', ''100''), (''Used_GiB'', ''50''),
                  (''Avail_GiB'', ''50''), (''Use_Percent'', ''50%''),
                  (''Cleanable_GiB'', ''10'')]])])
   \<and> dict_get (parse_autosupport_file (Inr roundtrip_doc_padded) ''/tmp/autosupport'' None)
      ''CLOUD_PROFILES'' = Some (RowList [])
   \<and> dict_get (parse_autosupport_file (Inr roundtrip_doc_padded) ''/tmp/autosupport'' None)
      ''CLOUD_DATA_MOVEMENT'' = Some (RowList [])"
  by (simp add: parse_autosupport_file_def parse_content_get padded_generated_on
        padded_hostname padded_cloud_tier padded_tables REQUIRED_FIELDS_def SERVICES_def
        parse_services_status_def dict_get_Cons)

lemma roundtrip_tables:
  "parse_storage_tables roundtrip_doc =
     [(''Active Tier Usage'',
       Rows [[(''Resource'', ''/data/col1  100  5''), (''Size_GiB'', ''0''),
              (''Used_GiB'', ''50''), (''Avail_GiB'', ''50%''), (''Use_Percent'', ''10''),
              (''Cleanable_GiB'', ''N/A'')]])]"
  by code_simp

text \<open>
  C1 as stated fails: with the row as the property writes it, two spaces between the
  cells, the slice at column 18 cuts through the third cell and the decoded row is
  not the expected one.
\<close>

theorem roundtrip_counterexample:
  "dict_get (parse_autosupport_file (Inr roundtrip_doc) ''/tmp/autosupport'' None)
      ''STORAGE_TABLES''
     = Some (Tables [(''Active Tier Usage'',
          Rows [[(''Resource'', ''/data/col1  100  5''), (''Size_GiB'', ''0''),
                 (''Used_GiB'', ''50''), (''Avail_GiB'', ''50%''), (''Use_Percent'', ''10''),
                 (''Cleanable_GiB'', ''N/A'')]])])
   \<and> dict_get (parse_autosupport_file (Inr roundtrip_doc) ''/tmp/autosupport'' None)
      ''STORAGE_TABLES''
     \<noteq> Some (Tables [(''Active Tier Usage'',
          Rows [[(''Resource'', ''/data/col1''), (''Size_GiB'', ''100''), (''Used_GiB'', ''50''),
                 (''Avail_GiB'', ''50''), (''Use_Percent'', ''50%''),
                 (''Cleanable_GiB'', ''10'')]])])"
  by (simp add: parse_autosupport_file_def parse_content_get roundtrip_tables)

section \<open>Cells of a decoded row\<close>

































lemma dash_na_cases: "dash_na ''-'' = ''N/A'' \<and> (v \<noteq> ''-'' \<longrightarrow> dash_na v = v)"
  by (simp add: dash_na_def)

















section \<open>Malformed rows\<close>









end
